theory Spec2Isabelle
  imports Main
begin

section \<open>Halide types and the compilation target\<close>

text \<open>
  The PTX device code generator (\<^verbatim>\<open>CodeGen_PTX_Dev.cpp\<close>) lowers Halide IR to LLVM IR for
  NVIDIA GPUs.  A Halide \<^verbatim>\<open>Type\<close> is a type code, a bit width and a lane count
  (\<^verbatim>\<open>halide_type_t\<close>: all three are unsigned machine fields, so \<open>nat\<close> here).
\<close>

datatype halide_type_code =
  halide_type_int | halide_type_uint | halide_type_float | halide_type_handle | halide_type_bfloat

record Type =
  code :: halide_type_code
  bits :: nat
  lanes :: nat

definition IntT :: "nat \<Rightarrow> nat \<Rightarrow> Type" where
  "IntT b l = \<lparr>code = halide_type_int, bits = b, lanes = l\<rparr>"

definition UIntT :: "nat \<Rightarrow> nat \<Rightarrow> Type" where
  "UIntT b l = \<lparr>code = halide_type_uint, bits = b, lanes = l\<rparr>"

definition FloatT :: "nat \<Rightarrow> nat \<Rightarrow> Type" where
  "FloatT b l = \<lparr>code = halide_type_float, bits = b, lanes = l\<rparr>"

definition is_int :: "Type \<Rightarrow> bool" where
  "is_int t = (code t = halide_type_int)"

definition is_uint :: "Type \<Rightarrow> bool" where
  "is_uint t = (code t = halide_type_uint)"

definition is_int_or_uint :: "Type \<Rightarrow> bool" where
  "is_int_or_uint t = (code t = halide_type_int \<or> code t = halide_type_uint)"

definition is_float :: "Type \<Rightarrow> bool" where
  "is_float t = (code t = halide_type_float \<or> code t = halide_type_bfloat)"

definition is_scalar :: "Type \<Rightarrow> bool" where
  "is_scalar t = (lanes t = 1)"

definition with_lanes :: "Type \<Rightarrow> nat \<Rightarrow> Type" where
  "with_lanes t l = t\<lparr>lanes := l\<rparr>"

definition element_of :: "Type \<Rightarrow> Type" where
  "element_of t = with_lanes t 1"

text \<open>
  The target is read through \<^verbatim>\<open>has_feature\<close> only; it is the set of its feature
  flags.  The CUDA capability flags are those the file tests.
\<close>

datatype feature =
  CUDA | CUDACapability30 | CUDACapability32 | CUDACapability35 | CUDACapability50
  | CUDACapability61 | CUDACapability70 | CUDACapability75 | CUDACapability80
  | DisableLLVMLoopOpt | EnableLLVMLoopOpt

record Target =
  features :: "feature set"

definition has_feature :: "Target \<Rightarrow> feature \<Rightarrow> bool" where
  "has_feature t f = (f \<in> features t)"

definition features_any_of :: "Target \<Rightarrow> feature list \<Rightarrow> bool" where
  "features_any_of t fs = list_ex (has_feature t) fs"

subsection \<open>Target Capability Resolver: \<^verbatim>\<open>mcpu\<close>, \<^verbatim>\<open>mattrs\<close>, \<^verbatim>\<open>supports_atomic_add\<close>\<close>

definition march :: "string" where
  "march = ''nvptx64''"

definition mcpu :: "Target \<Rightarrow> string" where
  "mcpu target =
    (if has_feature target CUDACapability80 then ''sm_80''
     else if has_feature target CUDACapability75 then ''sm_75''
     else if has_feature target CUDACapability70 then ''sm_70''
     else if has_feature target CUDACapability61 then ''sm_61''
     else if has_feature target CUDACapability50 then ''sm_50''
     else if has_feature target CUDACapability35 then ''sm_35''
     else if has_feature target CUDACapability32 then ''sm_32''
     else if has_feature target CUDACapability30 then ''sm_30''
     else ''sm_20'')"

definition mattrs :: "Target \<Rightarrow> string" where
  "mattrs target =
    (if has_feature target CUDACapability80 then ''+ptx70''
     else if has_feature target CUDACapability70 \<or> has_feature target CUDACapability75
       then ''+ptx60''
     else if has_feature target CUDACapability61 then ''+ptx50''
     else if features_any_of target [CUDACapability32, CUDACapability50] then ''+ptx40''
     else '''')"

definition use_soft_float_abi :: bool where
  "use_soft_float_abi = False"

definition native_vector_bits :: int where
  "native_vector_bits = 64"

text \<open>
  \<^verbatim>\<open>supports_atomic_add\<close> asks the target for its CUDA capability lower bound.
  \<^verbatim>\<open>Target::get_cuda_capability_lower_bound\<close> is defined in \<^verbatim>\<open>Target.cpp\<close>, outside this
  file; it is the parameter \<open>get_cuda_capability_lower_bound\<close>.
\<close>

definition supports_atomic_add :: "(Target \<Rightarrow> int) \<Rightarrow> Target \<Rightarrow> Type \<Rightarrow> bool" where
  "supports_atomic_add get_cuda_capability_lower_bound target t =
    (if bits t < 32 then False
     else if is_int_or_uint t then True
     else if is_float t \<and> bits t = 32 then True
     else if is_float t \<and> bits t = 64 then get_cuda_capability_lower_bound target \<ge> 61
     else False)"

subsection \<open>The resolver as the specification words it\<close>

text \<open>
  The specification describes \<open>architecture_id\<close> as a precedence list of hardware
  generations, newest first, with the oldest supported generation as the fallback.
  \<open>architecture_id\<close> follows those words; \<open>mcpu\<close> above follows the source.
\<close>

definition generation_precedence :: "(feature \<times> string) list" where
  "generation_precedence =
    [(CUDACapability80, ''sm_80''), (CUDACapability75, ''sm_75''),
     (CUDACapability70, ''sm_70''), (CUDACapability61, ''sm_61''),
     (CUDACapability50, ''sm_50''), (CUDACapability35, ''sm_35''),
     (CUDACapability32, ''sm_32''), (CUDACapability30, ''sm_30'')]"

definition oldest_generation :: string where
  "oldest_generation = ''sm_20''"

fun first_match :: "Target \<Rightarrow> (feature \<times> string) list \<Rightarrow> string \<Rightarrow> string" where
  "first_match t [] d = d"
| "first_match t ((f, n) # rest) d = (if has_feature t f then n else first_match t rest d)"

definition architecture_id :: "Target \<Rightarrow> string" where
  "architecture_id t = first_match t generation_precedence oldest_generation"

text \<open>
  The PTX ISA version a feature string selects, times ten: \<^verbatim>\<open>+ptx70\<close> is ISA 7.0.  The
  empty string leaves the backend's default, ISA 3.2 by the comment in \<^verbatim>\<open>mattrs\<close>.
\<close>

definition ptx_isa_version :: "string \<Rightarrow> nat" where
  "ptx_isa_version s =
    (if s = ''+ptx70'' then 70 else if s = ''+ptx60'' then 60
     else if s = ''+ptx50'' then 50 else if s = ''+ptx40'' then 40 else 32)"

definition newest_only :: Target where
  "newest_only = \<lparr>features = {CUDACapability80}\<rparr>"

section \<open>Halide IR\<close>

text \<open>
  The expression and statement nodes this file inspects or builds, with the fields of
  \<^verbatim>\<open>IR.h\<close> in the order of each node's \<^verbatim>\<open>make\<close>.  An undefined \<^verbatim>\<open>Expr\<close> (a null handle) is
  \<open>None\<close> of \<open>Expr option\<close>.  The loop kind and device API of \<^verbatim>\<open>For\<close> are not read by this
  file and are left out.
\<close>

record ModulusRemainder =
  modulus :: int
  remainder :: int

datatype CallType =
  Image | Extern | ExternCPlusPlus | PureExtern | Halide | Intrinsic | PureIntrinsic

datatype VectorReduce_Operator =
  VR_Add | VR_SaturatingAdd | VR_Mul | VR_Min | VR_Max | VR_And | VR_Or

datatype MemoryType =
  Auto | Heap | Stack | Register | GPUShared | GPUTexture | LockedCache | VTCM

type_synonym Buffer = "string option"
type_synonym Parameter = "string option"

datatype Expr =
    IntImm Type int
  | UIntImm Type nat
  | StringImm string
  | Variable Type string
  | Cast Type Expr
  | Add Expr Expr
  | Sub Expr Expr
  | Mul Expr Expr
  | Div Expr Expr
  | Not_e Expr
  | Ramp Expr Expr nat
  | Broadcast Expr nat
  | Load Type string Expr Buffer Parameter Expr ModulusRemainder
  | Call Type string "Expr list" CallType
  | Shuffle "Expr list" "nat list"
  | VectorReduce VectorReduce_Operator Expr nat

datatype Stmt =
    For string Expr Expr Stmt
  | Allocate string Type MemoryType "Expr list" Expr Stmt "Expr option" string
  | Free string
  | AssertStmt Expr Expr
  | Store string Expr Expr Parameter Expr ModulusRemainder
  | Atomic string string Stmt
  | Evaluate Expr
  | IfThenElse Expr Stmt "Stmt option"
  | Block Stmt Stmt
  | LetStmt string Expr Stmt

text \<open>
  The type every expression node carries.  \<^verbatim>\<open>Shuffle::make\<close> asserts that its vector list
  is not empty; the empty case is given a zero-width handle type.
\<close>

fun type_of :: "Expr \<Rightarrow> Type" where
  "type_of (IntImm t v) = t"
| "type_of (UIntImm t v) = t"
| "type_of (StringImm v) = \<lparr>code = halide_type_handle, bits = 64, lanes = 1\<rparr>"
| "type_of (Variable t n) = t"
| "type_of (Cast t e) = t"
| "type_of (Add a b) = type_of a"
| "type_of (Sub a b) = type_of a"
| "type_of (Mul a b) = type_of a"
| "type_of (Div a b) = type_of a"
| "type_of (Not_e a) = type_of a"
| "type_of (Ramp base stride n) = with_lanes (type_of base) (n * lanes (type_of base))"
| "type_of (Broadcast v n) = with_lanes (type_of v) (n * lanes (type_of v))"
| "type_of (Load t name index img param predicate alignment) = t"
| "type_of (Call t name args call_type) = t"
| "type_of (Shuffle [] indices) = \<lparr>code = halide_type_handle, bits = 0, lanes = length indices\<rparr>"
| "type_of (Shuffle (v # vs) indices) = with_lanes (element_of (type_of v)) (length indices)"
| "type_of (VectorReduce rop v n) = with_lanes (type_of v) n"

subsection \<open>Node constructors of \<^verbatim>\<open>IROperator.h\<close> and \<^verbatim>\<open>IR.cpp\<close>\<close>

definition gpu_thread_barrier :: string where
  "gpu_thread_barrier = ''gpu_thread_barrier''"

definition reinterpret_name :: string where
  "reinterpret_name = ''reinterpret''"

definition is_intrinsic :: "CallType \<Rightarrow> string \<Rightarrow> string \<Rightarrow> bool" where
  "is_intrinsic call_type name op_name =
    ((call_type = Intrinsic \<or> call_type = PureIntrinsic) \<and> name = op_name)"

definition reinterpret :: "Type \<Rightarrow> Expr \<Rightarrow> Expr" where
  "reinterpret t e = Call t reinterpret_name [e] PureIntrinsic"

definition make_slice :: "Expr \<Rightarrow> nat \<Rightarrow> nat \<Rightarrow> nat \<Rightarrow> Expr" where
  "make_slice v start stride size_n =
    (if start = 0 \<and> size_n = lanes (type_of v) \<and> stride = 1 then v
     else Shuffle [v] (map (\<lambda>i. start + i * stride) [0..<size_n]))"

definition make_extract_element :: "Expr \<Rightarrow> nat \<Rightarrow> Expr" where
  "make_extract_element v i = make_slice v i 1 1"

definition make_concat :: "Expr list \<Rightarrow> Expr" where
  "make_concat vectors =
    (case vectors of
       [v] \<Rightarrow> v
     | _ \<Rightarrow> Shuffle vectors [0..<sum_list (map (\<lambda>v. lanes (type_of v)) vectors)])"

text \<open>
  Modelled from the spec: \<^verbatim>\<open>ends_with\<close> (\<^verbatim>\<open>Util.h\<close>) and
  \<^verbatim>\<open>CodeGen_GPU_Dev::is_gpu_var\<close> are defined outside this file.  The specification says
  a loop variable denotes a GPU-builtin axis when it is a thread or block index along
  x, y, z or w, recognised by the suffix of its name.
\<close>

definition ends_with :: "string \<Rightarrow> string \<Rightarrow> bool" where
  "ends_with str suffix_s =
    (length suffix_s \<le> length str \<and> drop (length str - length suffix_s) str = suffix_s)"

definition is_gpu_thread_var :: "string \<Rightarrow> bool" where
  "is_gpu_thread_var name =
    (ends_with name ''.__thread_id_x'' \<or> ends_with name ''.__thread_id_y''
     \<or> ends_with name ''.__thread_id_z'' \<or> ends_with name ''.__thread_id_w'')"

definition is_gpu_block_var :: "string \<Rightarrow> bool" where
  "is_gpu_block_var name =
    (ends_with name ''.__block_id_x'' \<or> ends_with name ''.__block_id_y''
     \<or> ends_with name ''.__block_id_z'' \<or> ends_with name ''.__block_id_w'')"

definition is_gpu_var :: "string \<Rightarrow> bool" where
  "is_gpu_var name = (is_gpu_block_var name \<or> is_gpu_thread_var name)"

section \<open>Errors, LLVM values and the code generator's state\<close>

text \<open>
  Every assertion of the source is a branch returning an error.  The specification names
  the failures; the source raises them as follows.
  \<^item> \<open>MalformedIntrinsic\<close>: the two \<^verbatim>\<open>internal_assert\<close>s on the barrier's arguments;
  \<^item> \<open>UnsupportedConstruct\<close>: the \<^verbatim>\<open>user_assert\<close>s on a custom new expression and on a
    mutex name;
  \<^item> \<open>DynamicSizeInKernel\<close>: \<^verbatim>\<open>internal_assert(size > 0)\<close>;
  \<^item> \<open>UnsupportedAtomicWidth\<close>: the two \<^verbatim>\<open>user_assert\<close>s on a store inside an atomic node;
  \<^item> \<open>InternalError\<close> with the source's message: every other \<^verbatim>\<open>internal_assert\<close> and
    \<^verbatim>\<open>internal_error\<close>.
  \<open>ValidationFailed\<close> and \<open>UnboundSymbol\<close> belong to the specification's taxonomy.
\<close>

datatype error =
  UnboundSymbol | MalformedIntrinsic | UnsupportedConstruct | DynamicSizeInKernel
  | UnsupportedAtomicWidth | ValidationFailed | InternalError string

datatype llvm_type =
  IntegerType nat | FloatType nat | VectorType llvm_type nat | PointerType llvm_type nat
  | VoidType

definition i8_t :: llvm_type where "i8_t = IntegerType 8"
definition i32_t :: llvm_type where "i32_t = IntegerType 32"
definition void_t :: llvm_type where "void_t = VoidType"

text \<open>A basic block is known by its function and its label.\<close>

datatype BasicBlock = BasicBlock string string

text \<open>
  LLVM values: arguments, constants and instructions (an instruction is the value it
  computes).  \<open>LoweredExpr\<close> and \<open>LoweredStmt\<close> stand for what a lowering outside this file
  produces for a node: they keep the name of the lowering and the node it was given.
\<close>

datatype llvm_value =
    Argument string
  | ConstantInt llvm_type int
  | ConstantNull llvm_type
  | AllocaInst llvm_type llvm_value
  | CallInst string "llvm_value list"
  | ReturnInst
  | BranchInst BasicBlock
  | LoweredExpr string Expr
  | LoweredStmt string Stmt

record Function =
  fname :: string
  arg_types :: "llvm_type list"
  noalias_params :: "nat list"

record Module =
  module_functions :: "Function list"
  nvvm_annotations :: "(string \<times> string \<times> int) list"

record CodeGen_state =
  module :: "Module option"
  current_function :: string
  entry_block :: BasicBlock
  insert_block :: BasicBlock
  block_insts :: "BasicBlock \<Rightarrow> llvm_value list"
  symbol_table :: "string \<Rightarrow> llvm_value list"
  emit_atomic_stores :: bool

type_synonym 'a result = "error + 'a"

subsection \<open>The LLVM builder and module\<close>

definition SetInsertPoint :: "BasicBlock \<Rightarrow> CodeGen_state \<Rightarrow> CodeGen_state" where
  "SetInsertPoint bb s = s\<lparr>insert_block := bb\<rparr>"

definition GetInsertBlock :: "CodeGen_state \<Rightarrow> BasicBlock" where
  "GetInsertBlock s = insert_block s"

definition insert_inst :: "llvm_value \<Rightarrow> CodeGen_state \<Rightarrow> CodeGen_state" where
  "insert_inst i s =
    s\<lparr>block_insts := (block_insts s)(insert_block s := block_insts s (insert_block s) @ [i])\<rparr>"

definition CreateCall :: "Function \<Rightarrow> llvm_value list \<Rightarrow> CodeGen_state \<Rightarrow> llvm_value \<times> CodeGen_state" where
  "CreateCall f args s = (CallInst (fname f) args, insert_inst (CallInst (fname f) args) s)"

definition CreateAlloca :: "llvm_type \<Rightarrow> llvm_value \<Rightarrow> CodeGen_state \<Rightarrow> llvm_value \<times> CodeGen_state" where
  "CreateAlloca ty n s = (AllocaInst ty n, insert_inst (AllocaInst ty n) s)"

definition CreateRetVoid :: "CodeGen_state \<Rightarrow> CodeGen_state" where
  "CreateRetVoid s = insert_inst ReturnInst s"

definition CreateBr :: "BasicBlock \<Rightarrow> CodeGen_state \<Rightarrow> CodeGen_state" where
  "CreateBr bb s = insert_inst (BranchInst bb) s"

definition getFunction :: "CodeGen_state \<Rightarrow> string \<Rightarrow> Function option" where
  "getFunction s name =
    (case module s of None \<Rightarrow> None | Some m \<Rightarrow> find (\<lambda>f. fname f = name) (module_functions m))"

subsection \<open>Scoped Binding Table\<close>

text \<open>
  Modelled from the spec: \<^verbatim>\<open>CodeGen_LLVM::sym_push\<close> and \<^verbatim>\<open>sym_pop\<close> (over \<^verbatim>\<open>Scope\<close>) are
  defined outside this file.  By the specification, \<open>push\<close> binds a name, shadowing any outer
  binding; \<open>pop\<close> removes the innermost binding and restores the shadowed one; an
  unmatched pop is an error, not silently ignored.
\<close>

definition sym_push :: "string \<Rightarrow> llvm_value \<Rightarrow> CodeGen_state \<Rightarrow> CodeGen_state" where
  "sym_push name v s = s\<lparr>symbol_table := (symbol_table s)(name := v # symbol_table s name)\<rparr>"

definition sym_pop :: "string \<Rightarrow> CodeGen_state \<Rightarrow> CodeGen_state result" where
  "sym_pop name s =
    (case symbol_table s name of
       [] \<Rightarrow> Inl (InternalError ''Name not in Scope'')
     | v # rest \<Rightarrow> Inr (s\<lparr>symbol_table := (symbol_table s)(name := rest)\<rparr>))"

subsection \<open>What the file takes from the rest of the compiler\<close>

text \<open>
  The helpers of \<^verbatim>\<open>IROperator.h\<close>, \<^verbatim>\<open>Simplify.h\<close>, \<^verbatim>\<open>CSE.h\<close>, \<^verbatim>\<open>ModulusRemainder.h\<close>, \<^verbatim>\<open>IR.h\<close>
  and LLVM's verifier are defined outside this file.  They are parameters: every
  result below holds for any implementation of them.
  \<^item> \<open>lossless_cast t e\<close> is \<open>None\<close> for an undefined result;
  \<open>as_const_int e\<close> is \<open>None\<close> for a null pointer;
  \<^item> \<open>mr_div\<close> is \<^verbatim>\<open>operator/\<close> on a \<^verbatim>\<open>ModulusRemainder\<close> and an integer;
  \<^item> \<open>constant_allocation_size\<close> reads an allocation's extents;
  \<^item> \<open>verifyFunction\<close> and \<open>verifyModule\<close> return \<open>True\<close> when they find the function or
    the module broken, as LLVM's do.
\<close>

record helpers =
  is_const_one :: "Expr \<Rightarrow> bool"
  is_const_zero :: "Expr \<Rightarrow> bool"
  as_const_int :: "Expr \<Rightarrow> int option"
  simplify :: "Expr \<Rightarrow> Expr"
  common_subexpression_elimination :: "Expr \<Rightarrow> Expr"
  lossless_cast :: "Type \<Rightarrow> Expr \<Rightarrow> Expr option"
  cast :: "Type \<Rightarrow> Expr \<Rightarrow> Expr"
  make_const :: "Type \<Rightarrow> int \<Rightarrow> Expr"
  mr_div :: "ModulusRemainder \<Rightarrow> int \<Rightarrow> ModulusRemainder"
  constant_allocation_size :: "Expr list \<Rightarrow> int"
  llvm_type_of :: "Type \<Rightarrow> llvm_type"
  verifyFunction :: "Module \<Rightarrow> string \<Rightarrow> bool"
  verifyModule :: "Module \<Rightarrow> bool"

definition const_true :: "helpers \<Rightarrow> nat \<Rightarrow> Expr" where
  "const_true H l = make_const H (UIntT 1 l) 1"

definition div_const :: "helpers \<Rightarrow> Expr \<Rightarrow> int \<Rightarrow> Expr" where
  "div_const H a b = Div a (make_const H (type_of a) b)"

text \<open>
  The base class \<^verbatim>\<open>CodeGen_LLVM\<close> is defined outside this file as well.  Its dispatching
  \<^verbatim>\<open>codegen\<close> (which calls back into the overrides below through virtual dispatch) and
  the generic visitors the overrides fall back to are parameters as well.  A visitor of an
  expression returns the member \<^verbatim>\<open>value\<close> it sets.
\<close>

record CodeGen_LLVM =
  codegen_Expr :: "Expr \<Rightarrow> CodeGen_state \<Rightarrow> (llvm_value \<times> CodeGen_state) result"
  codegen_Stmt :: "Stmt \<Rightarrow> CodeGen_state \<Rightarrow> CodeGen_state result"
  llvm_visit_Call :: "Expr \<Rightarrow> CodeGen_state \<Rightarrow> (llvm_value \<times> CodeGen_state) result"
  llvm_visit_Load :: "Expr \<Rightarrow> CodeGen_state \<Rightarrow> (llvm_value \<times> CodeGen_state) result"
  llvm_codegen_vector_reduce ::
    "Expr \<Rightarrow> Expr option \<Rightarrow> CodeGen_state \<Rightarrow> (llvm_value \<times> CodeGen_state) result"
  llvm_visit_For :: "Stmt \<Rightarrow> CodeGen_state \<Rightarrow> CodeGen_state result"
  llvm_visit_Store :: "Stmt \<Rightarrow> CodeGen_state \<Rightarrow> CodeGen_state result"
  llvm_visit_Atomic :: "Stmt \<Rightarrow> CodeGen_state \<Rightarrow> CodeGen_state result"

section \<open>GPU Construct Lowering: the overridden visitors\<close>

text \<open>
  Each override takes the helpers \<open>H\<close> and the base class \<open>B\<close>, the node it visits and the
  code generator's state, and returns an error or the new state (with the value, for an
  expression).  An override is only ever called on its own node kind.
\<close>

subsection \<open>\<^verbatim>\<open>visit(const Call *)\<close>: the barrier intrinsic\<close>

fun visit_Call ::
  "helpers \<Rightarrow> CodeGen_LLVM \<Rightarrow> Expr \<Rightarrow> CodeGen_state \<Rightarrow> (llvm_value \<times> CodeGen_state) result"
where
  "visit_Call H B (Call t name args call_type) s =
    (if is_intrinsic call_type name gpu_thread_barrier then
       if length args \<noteq> 1 then Inl MalformedIntrinsic
       else
         (case as_const_int H (args ! 0) of
            None \<Rightarrow> Inl MalformedIntrinsic
          | Some fence_type \<Rightarrow>
              (case getFunction s ''llvm.nvvm.barrier0'' of
                 None \<Rightarrow>
                   Inl (InternalError ''Could not find PTX barrier intrinsic (llvm.nvvm.barrier0)'')
               | Some barrier0 \<Rightarrow>
                   (let (c, s') = CreateCall barrier0 [] s
                    in Inr (ConstantInt i32_t 0, s'))))
     else llvm_visit_Call B (Call t name args call_type) s)"

subsection \<open>\<^verbatim>\<open>simt_intrinsic\<close> and \<^verbatim>\<open>visit(const For *)\<close>\<close>

definition simt_intrinsic :: "string \<Rightarrow> string result" where
  "simt_intrinsic name =
    (if ends_with name ''.__thread_id_x'' then Inr ''llvm.nvvm.read.ptx.sreg.tid.x''
     else if ends_with name ''.__thread_id_y'' then Inr ''llvm.nvvm.read.ptx.sreg.tid.y''
     else if ends_with name ''.__thread_id_z'' then Inr ''llvm.nvvm.read.ptx.sreg.tid.z''
     else if ends_with name ''.__thread_id_w'' then Inr ''llvm.nvvm.read.ptx.sreg.tid.w''
     else if ends_with name ''.__block_id_x'' then Inr ''llvm.nvvm.read.ptx.sreg.ctaid.x''
     else if ends_with name ''.__block_id_y'' then Inr ''llvm.nvvm.read.ptx.sreg.ctaid.y''
     else if ends_with name ''.__block_id_z'' then Inr ''llvm.nvvm.read.ptx.sreg.ctaid.z''
     else if ends_with name ''.__block_id_w'' then Inr ''llvm.nvvm.read.ptx.sreg.ctaid.w''
     else Inl (InternalError ''simt_intrinsic called on bad variable name''))"

fun visit_For :: "helpers \<Rightarrow> CodeGen_LLVM \<Rightarrow> Stmt \<Rightarrow> CodeGen_state \<Rightarrow> CodeGen_state result" where
  "visit_For H B (For name loop_min extent body) s =
    (if is_gpu_var name then
       (case simt_intrinsic name of
          Inl e \<Rightarrow> Inl e
        | Inr intrinsic_name \<Rightarrow>
            (let simt_idx = Call (IntT 32 1) intrinsic_name [] Extern in
             if \<not> is_const_zero H loop_min
             then Inl (InternalError ''is_const_zero(loop->min)'')
             else
               (case codegen_Expr B simt_idx s of
                  Inl e \<Rightarrow> Inl e
                | Inr (v, s1) \<Rightarrow>
                    (case codegen_Stmt B body (sym_push name v s1) of
                       Inl e \<Rightarrow> Inl e
                     | Inr s2 \<Rightarrow> sym_pop name s2))))
     else llvm_visit_For B (For name loop_min extent body) s)"

subsection \<open>\<^verbatim>\<open>visit(const Allocate *)\<close> and \<^verbatim>\<open>visit(const Free *)\<close>\<close>

fun visit_Allocate :: "helpers \<Rightarrow> CodeGen_LLVM \<Rightarrow> Stmt \<Rightarrow> CodeGen_state \<Rightarrow> CodeGen_state result" where
  "visit_Allocate H B (Allocate name t memory_type extents condition body new_expr free_function) s =
    (if new_expr \<noteq> None then Inl UnsupportedConstruct
     else
       (case
          (if memory_type = GPUShared then
             (let shared_base = ConstantNull (PointerType i8_t 3)
              in Inr (sym_push name shared_base s))
           else
             (let allocation_name = name;
                  size_n = constant_allocation_size H extents
              in if \<not> size_n > 0 then Inl DynamicSizeInKernel
                 else
                   (let here = GetInsertBlock s;
                        s1 = SetInsertPoint (entry_block s) s;
                        (ptr, s2) = CreateAlloca (llvm_type_of H t) (ConstantInt i32_t size_n) s1;
                        s3 = SetInsertPoint here s2
                    in Inr (sym_push allocation_name ptr s3))))
        of
          Inl e \<Rightarrow> Inl e
        | Inr s' \<Rightarrow> codegen_Stmt B body s'))"

fun visit_Free :: "helpers \<Rightarrow> CodeGen_LLVM \<Rightarrow> Stmt \<Rightarrow> CodeGen_state \<Rightarrow> CodeGen_state result" where
  "visit_Free H B (Free name) s = sym_pop name s"

subsection \<open>\<^verbatim>\<open>visit(const AssertStmt *)\<close>\<close>

fun visit_AssertStmt :: "helpers \<Rightarrow> CodeGen_LLVM \<Rightarrow> Stmt \<Rightarrow> CodeGen_state \<Rightarrow> CodeGen_state result" where
  "visit_AssertStmt H B (AssertStmt condition message) s =
    (let trap = Call (IntT 32 1) ''halide_ptx_trap'' [] Extern
     in codegen_Stmt B (IfThenElse (Not_e condition) (Evaluate trap) None) s)"

subsection \<open>\<^verbatim>\<open>visit(const Load *)\<close> and \<^verbatim>\<open>visit(const Store *)\<close>: wide-access fusion\<close>

text \<open>
  \<^verbatim>\<open>x % 4 == 0\<close> on a C++ \<^verbatim>\<open>int64_t\<close> holds exactly when 4 divides \<open>x\<close>, whatever its sign,
  as \<open>x mod 4 = 0\<close> does on \<open>int\<close>.
\<close>

fun visit_Load ::
  "helpers \<Rightarrow> CodeGen_LLVM \<Rightarrow> Expr \<Rightarrow> CodeGen_state \<Rightarrow> (llvm_value \<times> CodeGen_state) result"
where
  "visit_Load H B (Load t name index img param predicate alignment) s =
    (case index of
       Ramp base stride n \<Rightarrow>
         if is_const_one H predicate \<and> is_const_one H stride \<and> n = 4 \<and> bits t = 32 then
           (let align = alignment in
            if modulus align mod 4 = 0 \<and> remainder align mod 4 = 0 then
              (let index' = simplify H (div_const H base 4);
                   equiv = Load (UIntT 128 1) name index' img param (const_true H 1) (mr_div H align 4);
                   equiv = reinterpret t equiv
               in codegen_Expr B equiv s)
            else llvm_visit_Load B (Load t name index img param predicate alignment) s)
         else llvm_visit_Load B (Load t name index img param predicate alignment) s
     | _ \<Rightarrow> llvm_visit_Load B (Load t name index img param predicate alignment) s)"

fun visit_Store :: "helpers \<Rightarrow> CodeGen_LLVM \<Rightarrow> Stmt \<Rightarrow> CodeGen_state \<Rightarrow> CodeGen_state result" where
  "visit_Store H B (Store name v index param predicate alignment) s =
    (if emit_atomic_stores s \<and> \<not> is_const_one H predicate then Inl UnsupportedAtomicWidth
     else if emit_atomic_stores s \<and> \<not> bits (type_of v) \<ge> 32 then Inl UnsupportedAtomicWidth
     else
       (case index of
          Ramp base stride n \<Rightarrow>
            if is_const_one H predicate \<and> is_const_one H stride \<and> n = 4
               \<and> bits (type_of v) = 32 then
              (let align = alignment in
               if modulus align mod 4 = 0 \<and> remainder align mod 4 = 0 then
                 (let index' = simplify H (div_const H base 4);
                      v' = reinterpret (UIntT 128 1) v;
                      equiv = Store name v' index' param (const_true H 1) (mr_div H align 4)
                  in codegen_Stmt B equiv s)
               else llvm_visit_Store B (Store name v index param predicate alignment) s)
            else llvm_visit_Store B (Store name v index param predicate alignment) s
        | _ \<Rightarrow> llvm_visit_Store B (Store name v index param predicate alignment) s))"

subsection \<open>\<^verbatim>\<open>visit(const Atomic *)\<close>\<close>

text \<open>
  \<^verbatim>\<open>ScopedValue<bool>\<close> saves the flag, sets it, and restores the saved value when the
  scope is left.
\<close>

fun visit_Atomic :: "helpers \<Rightarrow> CodeGen_LLVM \<Rightarrow> Stmt \<Rightarrow> CodeGen_state \<Rightarrow> CodeGen_state result" where
  "visit_Atomic H B (Atomic producer_name mutex_name body) s =
    (if mutex_name \<noteq> [] then Inl UnsupportedConstruct
     else
       (let old_emit_atomic_stores = emit_atomic_stores s;
            s1 = s\<lparr>emit_atomic_stores := True\<rparr>
        in case llvm_visit_Atomic B (Atomic producer_name mutex_name body) s1 of
             Inl e \<Rightarrow> Inl e
           | Inr s2 \<Rightarrow> Inr (s2\<lparr>emit_atomic_stores := old_emit_atomic_stores\<rparr>)))"

section \<open>Access and Reduction Fusion Matcher: \<^verbatim>\<open>codegen_vector_reduce\<close>\<close>

text \<open>
  The narrowing of the multiply's operands (the statements between the comment
  \<^verbatim>\<open>Try to narrow the multiply args to 8-bit\<close> and the test \<^verbatim>\<open>a.defined() && b.defined()\<close>).
  The result is the pair \<open>(a, b)\<close> of the source's variables at that test.
\<close>

definition narrow_mul_args ::
  "helpers \<Rightarrow> bool \<Rightarrow> nat \<Rightarrow> Expr \<Rightarrow> Expr \<Rightarrow> Expr option \<times> Expr option"
where
  "narrow_mul_args H target_is_uint input_lanes mul_a mul_b =
    (let (a, b) =
       (if target_is_uint then
          (lossless_cast H (UIntT 8 input_lanes) mul_a,
           lossless_cast H (UIntT 8 input_lanes) mul_b)
        else
          (let a = lossless_cast H (IntT 8 input_lanes) mul_a;
               b = lossless_cast H (IntT 8 input_lanes) mul_b;
               a = (if a = None then lossless_cast H (UIntT 8 input_lanes) mul_a else a);
               b = (if b = None then lossless_cast H (UIntT 8 input_lanes) mul_b else b)
           in (a, b)));
       a_orig = mul_a;
       (a, b, a_orig) = (if a \<noteq> None \<and> b = None then (b, a, mul_b) else (a, b, a_orig));
       a = (if b \<noteq> None \<and> a = None then
              (let a = lossless_cast H (UIntT 16 input_lanes) a_orig
               in if a = None \<and> \<not> target_is_uint
                  then lossless_cast H (IntT 16 input_lanes) a_orig else a)
            else a)
     in (a, b))"

definition dot_product_name :: "Expr \<Rightarrow> Expr \<Rightarrow> string" where
  "dot_product_name a b =
    (if bits (type_of a) = 8 then ''dp4a'' else ''dp2a'')
    @ (if is_int (type_of a) then ''_s32'' else ''_u32'')
    @ (if is_int (type_of b) then ''_s32'' else ''_u32'')"

text \<open>
  Reinterpreting an operand as 32-bit words (the body of the loop over \<^verbatim>\<open>{&a, &b}\<close>).
  The source divides by the operand's bit width and by \<^verbatim>\<open>sub_lanes\<close>; where either is zero
  the C++ is undefined, and the model returns an error.
\<close>

definition as_32_bit_words :: "helpers \<Rightarrow> nat \<Rightarrow> Expr \<Rightarrow> Expr result" where
  "as_32_bit_words H input_lanes e =
    (if bits (type_of e) = 0 \<or> 32 div bits (type_of e) = 0
     then Inl (InternalError ''division by zero'')
     else
       (let sub_lanes = 32 div bits (type_of e);
            otherwise = reinterpret (IntT 32 (input_lanes div sub_lanes)) e
        in case e of
             Load t name index img param predicate alignment \<Rightarrow>
               (case index of
                  Ramp base stride n \<Rightarrow>
                    if is_const_one H stride
                       \<and> modulus alignment mod int sub_lanes = 0
                       \<and> remainder alignment mod int sub_lanes = 0 then
                      (let new_idx = simplify H (div_const H base (int sub_lanes));
                           load_lanes = input_lanes div sub_lanes;
                           new_idx = (if input_lanes > sub_lanes
                                      then Ramp new_idx (IntImm (IntT 32 1) 1) load_lanes
                                      else new_idx)
                       in Inr (Load (IntT 32 load_lanes) name new_idx img param
                                 (const_true H load_lanes) (mr_div H alignment (int sub_lanes))))
                    else Inr otherwise
                | _ \<Rightarrow> Inr otherwise)
           | _ \<Rightarrow> Inr otherwise))"

text \<open>The inner loop over the 32-bit words of one output lane.\<close>

fun dot_product_chain :: "string \<Rightarrow> Expr \<Rightarrow> Expr \<Rightarrow> nat list \<Rightarrow> Expr \<Rightarrow> Expr result" where
  "dot_product_chain name a_slice b_slice [] i_slice = Inr i_slice"
| "dot_product_chain name a_slice b_slice (k # ks) i_slice =
    (if lanes (type_of a_slice) = lanes (type_of b_slice) then
       (let (a_lane, b_lane) =
              (if is_scalar (type_of b_slice) then (a_slice, b_slice)
               else (make_extract_element a_slice k, make_extract_element b_slice k))
        in dot_product_chain name a_slice b_slice ks
             (Call (type_of i_slice) name [a_lane, b_lane, i_slice] PureExtern))
     else if lanes (type_of a_slice) \<noteq> 2 * lanes (type_of b_slice)
     then Inl (InternalError ''a_slice.type().lanes() == 2 * b_slice.type().lanes()'')
     else
       (let b_lane = (if is_scalar (type_of b_slice) then b_slice
                      else make_extract_element b_slice k);
            a_lane_lo = make_extract_element a_slice (2 * k);
            a_lane_hi = make_extract_element a_slice (2 * k + 1)
        in dot_product_chain name a_slice b_slice ks
             (Call (type_of i_slice) name [a_lane_lo, a_lane_hi, b_lane, i_slice] PureExtern)))"

text \<open>The body of the loop over the output lanes.\<close>

definition dot_product_lane ::
  "helpers \<Rightarrow> string \<Rightarrow> nat \<Rightarrow> nat \<Rightarrow> Expr \<Rightarrow> Expr \<Rightarrow> Expr \<Rightarrow> nat \<Rightarrow> Expr result"
where
  "dot_product_lane H name a_32_bit_words_per_sum b_32_bit_words_per_sum i a b l =
    (let i_slice = (if is_scalar (type_of i) then i else make_extract_element i l);
         a_slice = (if is_scalar (type_of a) then a
                    else make_slice a (l * a_32_bit_words_per_sum) 1 a_32_bit_words_per_sum);
         b_slice = (if is_scalar (type_of b) then b
                    else make_slice b (l * b_32_bit_words_per_sum) 1 b_32_bit_words_per_sum)
     in case dot_product_chain name a_slice b_slice [0..<b_32_bit_words_per_sum] i_slice of
          Inl e \<Rightarrow> Inl e
        | Inr i_slice \<Rightarrow> Inr (common_subexpression_elimination H (simplify H i_slice)))"

fun map_result :: "('a \<Rightarrow> 'b result) \<Rightarrow> 'a list \<Rightarrow> 'b list result" where
  "map_result f [] = Inr []"
| "map_result f (x # xs) =
    (case f x of
       Inl e \<Rightarrow> Inl e
     | Inr y \<Rightarrow> (case map_result f xs of Inl e \<Rightarrow> Inl e | Inr ys \<Rightarrow> Inr (y # ys)))"

text \<open>The fused expression, built once both operands are defined.\<close>

definition dot_product_equiv ::
  "helpers \<Rightarrow> Type \<Rightarrow> nat \<Rightarrow> nat \<Rightarrow> Expr \<Rightarrow> Expr \<Rightarrow> Expr \<Rightarrow> Expr result"
where
  "dot_product_equiv H op_type input_lanes factor i a b =
    (let name = dot_product_name a b;
         a_32_bit_words_per_sum = (factor * bits (type_of a)) div 32;
         b_32_bit_words_per_sum = (factor * bits (type_of b)) div 32
     in case as_32_bit_words H input_lanes a of
          Inl e \<Rightarrow> Inl e
        | Inr a' \<Rightarrow>
            (case as_32_bit_words H input_lanes b of
               Inl e \<Rightarrow> Inl e
             | Inr b' \<Rightarrow>
                 (case map_result
                         (dot_product_lane H name a_32_bit_words_per_sum b_32_bit_words_per_sum
                            i a' b')
                         [0..<lanes op_type] of
                    Inl e \<Rightarrow> Inl e
                  | Inr lane_results \<Rightarrow> Inr (make_concat lane_results))))"

text \<open>
  \<^verbatim>\<open>codegen_vector_reduce\<close> itself.  The source divides the input lane count by the output
  lane count; a type has at least one lane, and for a zero lane count, where the C++ is
  undefined, the model returns an error.
\<close>

fun codegen_vector_reduce ::
  "helpers \<Rightarrow> CodeGen_LLVM \<Rightarrow> Expr \<Rightarrow> Expr option \<Rightarrow> CodeGen_state
   \<Rightarrow> (llvm_value \<times> CodeGen_state) result"
where
  "codegen_vector_reduce H B (VectorReduce rop v out_lanes) init s =
    (let op = VectorReduce rop v out_lanes;
         op_type = type_of op;
         input_lanes = lanes (type_of v)
     in if lanes op_type = 0 then Inl (InternalError ''division by zero'')
        else
          (let factor = input_lanes div lanes op_type
           in case v of
                Mul mul_a mul_b \<Rightarrow>
                  if rop = VR_Add \<and> factor mod 4 = 0
                     \<and> (element_of op_type = IntT 32 1 \<or> element_of op_type = UIntT 32 1)
                  then
                    (let i = (case init of
                                Some i0 \<Rightarrow> i0
                              | None \<Rightarrow>
                                  cast H (type_of (Mul mul_a mul_b)) (IntImm (IntT 32 1) 0))
                     in case narrow_mul_args H (is_uint op_type) input_lanes mul_a mul_b of
                          (Some a, Some b) \<Rightarrow>
                            (case dot_product_equiv H op_type input_lanes factor i a b of
                               Inl e \<Rightarrow> Inl e
                             | Inr equiv_expr \<Rightarrow> codegen_Expr B equiv_expr s)
                        | _ \<Rightarrow> llvm_codegen_vector_reduce B op init s)
                  else llvm_codegen_vector_reduce B op init s
              | _ \<Rightarrow> llvm_codegen_vector_reduce B op init s))"

section \<open>Kernel Emission Controller: \<^verbatim>\<open>add_kernel\<close>\<close>

record DeviceArgument =
  arg_name :: string
  is_buffer :: bool
  arg_type :: Type

fun sym_pop_all :: "string list \<Rightarrow> CodeGen_state \<Rightarrow> CodeGen_state result" where
  "sym_pop_all [] s = Inr s"
| "sym_pop_all (n # ns) s =
    (case sym_pop n s of Inl e \<Rightarrow> Inl e | Inr s' \<Rightarrow> sym_pop_all ns s')"

definition add_nvvm_annotation :: "string \<Rightarrow> CodeGen_state \<Rightarrow> CodeGen_state" where
  "add_nvvm_annotation name s =
    (case module s of
       None \<Rightarrow> s
     | Some m \<Rightarrow>
         s\<lparr>module := Some (m\<lparr>nvvm_annotations := nvvm_annotations m @ [(name, ''kernel'', 1)]\<rparr>)\<rparr>)"

text \<open>
  \<^verbatim>\<open>verifyFunction\<close> and \<^verbatim>\<open>verifyModule\<close> are called as statements: the source does not
  read what they return.
\<close>

definition add_kernel ::
  "helpers \<Rightarrow> CodeGen_LLVM \<Rightarrow> Stmt \<Rightarrow> string \<Rightarrow> DeviceArgument list \<Rightarrow> CodeGen_state
   \<Rightarrow> CodeGen_state result"
where
  "add_kernel H B stmt name args s =
    (case module s of
       None \<Rightarrow> Inl (InternalError ''module != nullptr'')
     | Some m \<Rightarrow>
         (let arg_types =
                map (\<lambda>a. if is_buffer a then PointerType (llvm_type_of H (UIntT 8 1)) 0
                         else llvm_type_of H (arg_type a)) args;
              f = \<lparr>fname = name, arg_types = arg_types,
                   noalias_params = filter (\<lambda>i. is_buffer (args ! i)) [0..<length args]\<rparr>;
              s = s\<lparr>module := Some (m\<lparr>module_functions := module_functions m @ [f]\<rparr>),
                    current_function := name\<rparr>;
              s = s\<lparr>entry_block := BasicBlock name ''entry''\<rparr>;
              s = SetInsertPoint (entry_block s) s;
              arg_sym_names = map arg_name args;
              s = fold (\<lambda>a. sym_push (arg_name a) (Argument (arg_name a))) args s;
              body_block = BasicBlock name ''body'';
              s = SetInsertPoint body_block s
          in case codegen_Stmt B stmt s of
               Inl e \<Rightarrow> Inl e
             | Inr s \<Rightarrow>
                 (let s = CreateRetVoid s;
                      s = SetInsertPoint (entry_block s) s;
                      s = CreateBr body_block s;
                      s = add_nvvm_annotation name s;
                      function_is_broken =
                        (case module s of None \<Rightarrow> False | Some m' \<Rightarrow> verifyFunction H m' name);
                      module_is_broken =
                        (case module s of None \<Rightarrow> False | Some m' \<Rightarrow> verifyModule H m')
                  in sym_pop_all arg_sym_names s)))"

section \<open>Tables and conditions used in the statements\<close>

text \<open>
  The suffix table of \<^verbatim>\<open>simt_intrinsic\<close> as data, looked up in the order the source tests
  it; \<open>simt_intrinsic\<close> above follows the source.
\<close>

definition simt_table :: "(string \<times> string) list" where
  "simt_table =
    [(''.__thread_id_x'', ''llvm.nvvm.read.ptx.sreg.tid.x''),
     (''.__thread_id_y'', ''llvm.nvvm.read.ptx.sreg.tid.y''),
     (''.__thread_id_z'', ''llvm.nvvm.read.ptx.sreg.tid.z''),
     (''.__thread_id_w'', ''llvm.nvvm.read.ptx.sreg.tid.w''),
     (''.__block_id_x'', ''llvm.nvvm.read.ptx.sreg.ctaid.x''),
     (''.__block_id_y'', ''llvm.nvvm.read.ptx.sreg.ctaid.y''),
     (''.__block_id_z'', ''llvm.nvvm.read.ptx.sreg.ctaid.z''),
     (''.__block_id_w'', ''llvm.nvvm.read.ptx.sreg.ctaid.w'')]"

definition table_lookup :: "string \<Rightarrow> string option" where
  "table_lookup name =
     map_option snd (find (\<lambda>entry. ends_with name (fst entry)) simt_table)"

text \<open>The state with one instruction appended to the entry block and nothing else changed.\<close>

definition with_entry_alloca :: "llvm_value \<Rightarrow> CodeGen_state \<Rightarrow> CodeGen_state" where
  "with_entry_alloca a s =
    s\<lparr>block_insts := (block_insts s)(entry_block s := block_insts s (entry_block s) @ [a])\<rparr>"

text \<open>
  The condition under which \<^verbatim>\<open>visit(const Load *)\<close> and \<^verbatim>\<open>visit(const Store *)\<close> rewrite an
  access, as one predicate: the index is a ramp of constant stride one and four lanes, the
  predicate is trivially true, the element width is 32 bits, and the alignment's modulus and
  remainder are multiples of 4.  \<open>atomic_store_ok\<close> is the check a store passes before it:
  inside an atomic node the predicate is trivially true and the value at least 32 bits wide.
\<close>

definition wide_access :: "helpers \<Rightarrow> Expr \<Rightarrow> Expr \<Rightarrow> nat \<Rightarrow> ModulusRemainder \<Rightarrow> bool" where
  "wide_access H index predicate elem_bits alignment =
    (case index of
       Ramp base stride n \<Rightarrow>
         is_const_one H predicate \<and> is_const_one H stride \<and> n = 4 \<and> elem_bits = 32
         \<and> modulus alignment mod 4 = 0 \<and> remainder alignment mod 4 = 0
     | _ \<Rightarrow> False)"

definition atomic_store_ok :: "helpers \<Rightarrow> Expr \<Rightarrow> Expr \<Rightarrow> CodeGen_state \<Rightarrow> bool" where
  "atomic_store_ok H predicate v s =
    (if emit_atomic_stores s then is_const_one H predicate \<and> 32 \<le> bits (type_of v) else True)"

text \<open>
  The narrowing steps as the specification words them: the 8-bit attempt (signed for a
  signed target with an unsigned retry, unsigned for an unsigned target) and the 16-bit
  attempt (unsigned, then signed for a signed target).  \<open>narrow_mul_args\<close> above follows the
  source.  \<open>dot_product_shape\<close> is the test that guards the matcher, for a reduction of a
  multiply.
\<close>

definition try_8bit :: "helpers \<Rightarrow> bool \<Rightarrow> nat \<Rightarrow> Expr \<Rightarrow> Expr option" where
  "try_8bit H target_is_uint input_lanes e =
    (if target_is_uint then lossless_cast H (UIntT 8 input_lanes) e
     else
       (case lossless_cast H (IntT 8 input_lanes) e of
          Some e8 \<Rightarrow> Some e8
        | None \<Rightarrow> lossless_cast H (UIntT 8 input_lanes) e))"

definition try_16bit :: "helpers \<Rightarrow> bool \<Rightarrow> nat \<Rightarrow> Expr \<Rightarrow> Expr option" where
  "try_16bit H target_is_uint input_lanes e =
    (case lossless_cast H (UIntT 16 input_lanes) e of
       Some e16 \<Rightarrow> Some e16
     | None \<Rightarrow> if target_is_uint then None else lossless_cast H (IntT 16 input_lanes) e)"

definition dot_product_shape :: "VectorReduce_Operator \<Rightarrow> Expr \<Rightarrow> nat \<Rightarrow> bool" where
  "dot_product_shape rop v out_lanes =
    (0 < out_lanes \<and> rop = VR_Add
     \<and> (lanes (type_of v) div out_lanes) mod 4 = 0
     \<and> (element_of (with_lanes (type_of v) out_lanes) = IntT 32 1
        \<or> element_of (with_lanes (type_of v) out_lanes) = UIntT 32 1))"

section \<open>A reference instance for evaluation\<close>

text \<open>
  A small implementation of the helper interface and of the base class, on which the
  overrides can be run.  The general results quantify over all helpers and base classes;
  this instance only provides concrete inputs.  Its \<open>lossless_cast\<close> narrows when the target
  type can represent the operand's type, looking through one widening cast; its generic
  lowering inserts one value per node it is given, which records that node; its verifier
  reports every function and module broken.
\<close>

definition can_represent :: "Type \<Rightarrow> Type \<Rightarrow> bool" where
  "can_represent t other =
    (if t = other then True
     else if lanes t \<noteq> lanes other then False
     else if is_int t then
       (is_int other \<and> bits other \<le> bits t) \<or> (is_uint other \<and> bits other < bits t)
     else if is_uint t then is_uint other \<and> bits other \<le> bits t
     else False)"

definition example_lossless_cast :: "Type \<Rightarrow> Expr \<Rightarrow> Expr option" where
  "example_lossless_cast t e =
    (if can_represent t (type_of e) then Some (if type_of e = t then e else Cast t e)
     else
       (case e of
          Cast t' v \<Rightarrow>
            if can_represent t (type_of v) then Some (if type_of v = t then v else Cast t v)
            else None
        | _ \<Rightarrow> None))"

definition example_helpers :: helpers where
  "example_helpers =
    \<lparr>is_const_one = (\<lambda>e. case e of IntImm t v \<Rightarrow> v = 1 | UIntImm t v \<Rightarrow> v = 1 | _ \<Rightarrow> False),
     is_const_zero = (\<lambda>e. case e of IntImm t v \<Rightarrow> v = 0 | UIntImm t v \<Rightarrow> v = 0 | _ \<Rightarrow> False),
     as_const_int = (\<lambda>e. case e of IntImm t v \<Rightarrow> Some v | _ \<Rightarrow> None),
     simplify = (\<lambda>e. e),
     common_subexpression_elimination = (\<lambda>e. e),
     lossless_cast = example_lossless_cast,
     cast = Cast,
     make_const = (\<lambda>t v. if is_uint t then UIntImm t (nat v) else IntImm t v),
     mr_div = (\<lambda>a b. \<lparr>modulus = modulus a div b, remainder = remainder a div b\<rparr>),
     constant_allocation_size = (\<lambda>extents. case extents of [IntImm t v] \<Rightarrow> v | _ \<Rightarrow> 0),
     llvm_type_of = (\<lambda>t. IntegerType (bits t)),
     verifyFunction = (\<lambda>m f. True),
     verifyModule = (\<lambda>m. True)\<rparr>"

definition generic_Expr :: "string \<Rightarrow> Expr \<Rightarrow> CodeGen_state \<Rightarrow> (llvm_value \<times> CodeGen_state) result" where
  "generic_Expr by_whom e s = Inr (LoweredExpr by_whom e, insert_inst (LoweredExpr by_whom e) s)"

definition generic_Stmt :: "string \<Rightarrow> Stmt \<Rightarrow> CodeGen_state \<Rightarrow> CodeGen_state result" where
  "generic_Stmt by_whom st s = Inr (insert_inst (LoweredStmt by_whom st) s)"

definition example_base :: CodeGen_LLVM where
  "example_base =
    \<lparr>codegen_Expr =
       (\<lambda>e s. case e of
                 Call t name args Extern \<Rightarrow>
                   Inr (CallInst name [], insert_inst (CallInst name []) s)
               | _ \<Rightarrow> generic_Expr ''codegen'' e s),
     codegen_Stmt = generic_Stmt ''codegen'',
     llvm_visit_Call = generic_Expr ''CodeGen_LLVM'',
     llvm_visit_Load = generic_Expr ''CodeGen_LLVM'',
     llvm_codegen_vector_reduce = (\<lambda>e init. generic_Expr ''CodeGen_LLVM'' e),
     llvm_visit_For = generic_Stmt ''CodeGen_LLVM'',
     llvm_visit_Store = generic_Stmt ''CodeGen_LLVM'',
     llvm_visit_Atomic = generic_Stmt ''CodeGen_LLVM''\<rparr>"

text \<open>
  A base class whose generic atomic visitor lowers the body, a store, through the store
  override, as the virtual dispatch of \<^verbatim>\<open>codegen\<close> does.
\<close>

definition example_atomic_base :: CodeGen_LLVM where
  "example_atomic_base =
    example_base\<lparr>llvm_visit_Atomic :=
      (\<lambda>st s. case st of
                 Atomic producer_name mutex_name body \<Rightarrow>
                   visit_Store example_helpers example_base body s
               | _ \<Rightarrow> Inr s)\<rparr>"

text \<open>A module that declares the barrier primitive, and states of the code generator.\<close>

definition example_module :: Module where
  "example_module =
    \<lparr>module_functions = [\<lparr>fname = ''llvm.nvvm.barrier0'', arg_types = [], noalias_params = []\<rparr>],
     nvvm_annotations = []\<rparr>"

definition example_state :: CodeGen_state where
  "example_state =
    \<lparr>module = Some example_module,
     current_function = ''kernel'',
     entry_block = BasicBlock ''kernel'' ''entry'',
     insert_block = BasicBlock ''kernel'' ''body'',
     block_insts = (\<lambda>bb. []),
     symbol_table = (\<lambda>name. []),
     emit_atomic_stores = False\<rparr>"

definition atomic_state :: CodeGen_state where
  "atomic_state = example_state\<lparr>emit_atomic_stores := True\<rparr>"

text \<open>Nodes to lower.\<close>

definition example_body :: Stmt where
  "example_body = Evaluate (Variable (IntT 32 1) ''f.s0.x.__block_id_x'')"

definition example_store :: "nat \<Rightarrow> Stmt" where
  "example_store b =
    Store ''out'' (Variable (IntT b 1) ''v'') (Variable (IntT 32 1) ''i'') None
      (UIntImm (UIntT 1 1) 1) \<lparr>modulus = 1, remainder = 0\<rparr>"

definition example_alloc :: "MemoryType \<Rightarrow> Expr \<Rightarrow> Expr option \<Rightarrow> Stmt" where
  "example_alloc memory_type extent new_expr =
    Allocate ''buf'' (FloatT 32 1) memory_type [extent] (UIntImm (UIntT 1 1) 1)
      (Evaluate (IntImm (IntT 32 1) 0)) new_expr []"

definition example_barrier :: "Expr list \<Rightarrow> Expr" where
  "example_barrier args = Call (IntT 32 1) gpu_thread_barrier args Intrinsic"

definition example_ramp :: "int \<Rightarrow> nat \<Rightarrow> Expr" where
  "example_ramp stride n = Ramp (Variable (IntT 32 1) ''x'') (IntImm (IntT 32 1) stride) n"

definition example_load :: "Expr \<Rightarrow> Expr" where
  "example_load index =
    Load (IntT 32 4) ''in'' index None None (UIntImm (UIntT 1 4) 1) \<lparr>modulus = 4, remainder = 0\<rparr>"

definition example_vector_store :: "Expr \<Rightarrow> Expr \<Rightarrow> Stmt" where
  "example_vector_store index predicate =
    Store ''out'' (Variable (IntT 32 4) ''v'') index None predicate \<lparr>modulus = 8, remainder = 4\<rparr>"

definition example_wide_store :: Stmt where
  "example_wide_store =
    Store ''out'' (Call (UIntT 128 1) ''reinterpret'' [Variable (IntT 32 4) ''v''] PureIntrinsic)
      (Div (Variable (IntT 32 1) ''x'') (IntImm (IntT 32 1) 4)) None (UIntImm (UIntT 1 1) 1)
      \<lparr>modulus = 2, remainder = 1\<rparr>"

definition example_mul :: "Type \<Rightarrow> Type \<Rightarrow> Expr" where
  "example_mul ta tb =
    Mul (Cast (IntT 32 4) (Variable ta ''a'')) (Cast (IntT 32 4) (Variable tb ''b''))"

definition example_args :: "DeviceArgument list" where
  "example_args =
    [\<lparr>arg_name = ''buf'', is_buffer = True, arg_type = UIntT 8 1\<rparr>,
     \<lparr>arg_name = ''n'', is_buffer = False, arg_type = IntT 32 1\<rparr>]"

definition example_kernel_body :: Stmt where
  "example_kernel_body = Evaluate (Variable (IntT 32 1) ''n'')"

section \<open>Properties of the capability resolver\<close>

lemma mattrs_cases:
  "mattrs t \<in> {''+ptx70'', ''+ptx60'', ''+ptx50'', ''+ptx40'', ''''}"
  by (simp add: mattrs_def)

lemma ptx_isa_version_mattrs_le: "ptx_isa_version (mattrs t) \<le> 70"
  using mattrs_cases [of t] by (auto simp: ptx_isa_version_def)

lemma mattrs_newest_only: "mattrs newest_only = ''+ptx70''"
  by (simp add: mattrs_def newest_only_def has_feature_def)

text \<open>
  Claim C7.  \<open>mcpu\<close> tests the generation flags from newest to oldest, returns the first
  match and falls back to the oldest generation \<^verbatim>\<open>sm_20\<close>: it is the first match over the
  precedence list.  A flag set holding only the newest flag resolves to the newest
  architecture id \<^verbatim>\<open>sm_80\<close> (the head of the list), and its feature string is at least as new
  as the feature string of any flag set whatever.
\<close>

theorem mcpu_precedence_and_monotone:
  "mcpu t = architecture_id t
   \<and> mcpu \<lparr>features = {}\<rparr> = oldest_generation
   \<and> mcpu newest_only = snd (hd generation_precedence)
   \<and> mcpu newest_only = ''sm_80''
   \<and> mattrs newest_only = ''+ptx70''
   \<and> ptx_isa_version (mattrs t') \<le> ptx_isa_version (mattrs newest_only)"
proof -
  have "mcpu t = architecture_id t"
    by (simp add: mcpu_def architecture_id_def generation_precedence_def oldest_generation_def)
  moreover have "mcpu \<lparr>features = {}\<rparr> = oldest_generation"
    by (simp add: mcpu_def has_feature_def oldest_generation_def)
  moreover have "mcpu newest_only = ''sm_80''"
    by (simp add: mcpu_def newest_only_def has_feature_def)
  moreover have "snd (hd generation_precedence) = ''sm_80''"
    by (simp add: generation_precedence_def)
  moreover have "ptx_isa_version (mattrs t') \<le> ptx_isa_version (mattrs newest_only)"
    using ptx_isa_version_mattrs_le [of t']
    by (simp add: mattrs_newest_only ptx_isa_version_def)
  ultimately show ?thesis by (simp add: mattrs_newest_only)
qed

section \<open>Parallel-axis loops\<close>

lemma simt_intrinsic_table:
  "simt_intrinsic name =
    (case table_lookup name of
       Some prim \<Rightarrow> Inr prim
     | None \<Rightarrow> Inl (InternalError ''simt_intrinsic called on bad variable name''))"
  by (simp add: simt_intrinsic_def table_lookup_def simt_table_def)

lemma is_gpu_var_table: "is_gpu_var name \<Longrightarrow> \<exists>prim. table_lookup name = Some prim"
  by (auto simp: is_gpu_var_def is_gpu_block_var_def is_gpu_thread_var_def
      table_lookup_def simt_table_def)

lemma visit_For_not_zero:
  "is_gpu_var name \<Longrightarrow> \<not> is_const_zero H loop_min \<Longrightarrow>
   visit_For H B (For name loop_min extent body) s = Inl (InternalError ''is_const_zero(loop->min)'')"
  using is_gpu_var_table [of name] by (auto simp: simt_intrinsic_table)

lemma visit_For_gpu:
  "is_gpu_var name \<Longrightarrow> is_const_zero H loop_min \<Longrightarrow> table_lookup name = Some prim \<Longrightarrow>
   visit_For H B (For name loop_min extent body) s =
     (case codegen_Expr B (Call (IntT 32 1) prim [] Extern) s of
        Inl e \<Rightarrow> Inl e
      | Inr (v, s1) \<Rightarrow>
          (case codegen_Stmt B body (sym_push name v s1) of
             Inl e \<Rightarrow> Inl e
           | Inr s2 \<Rightarrow> sym_pop name s2))"
  by (simp add: simt_intrinsic_table)

lemma visit_For_other:
  "\<not> is_gpu_var name \<Longrightarrow>
   visit_For H B (For name loop_min extent body) s = llvm_visit_For B (For name loop_min extent body) s"
  by simp

lemma sym_pop_sym_push: "sym_pop name (sym_push name v s) = Inr s"
  by (simp add: sym_pop_def sym_push_def)

lemma sym_pop_Inr:
  "sym_pop name s = Inr s' \<Longrightarrow>
     symbol_table s name \<noteq> [] \<and> s' = s\<lparr>symbol_table := (symbol_table s)(name := tl (symbol_table s name))\<rparr>"
  by (auto simp: sym_pop_def split: list.splits)


text \<open>
  Claim C3.  For a loop whose variable is a GPU axis, lowering fails at once when the lower
  bound is not the constant zero.  Otherwise the register-read primitive is the one the
  suffix table gives for the name; the loop variable is bound to the value of a call of it,
  the body is lowered once, in the state with that binding, and the binding is popped from
  the state the body leaves (a pop undoes the push).  A loop whose variable is not a GPU
  axis goes unchanged to the generic loop lowering.
\<close>

theorem visit_For_gpu_axis:
  "(is_gpu_var name \<and> \<not> is_const_zero H loop_min \<longrightarrow>
      visit_For H B (For name loop_min extent body) s
        = Inl (InternalError ''is_const_zero(loop->min)''))
   \<and> (is_gpu_var name \<and> is_const_zero H loop_min \<longrightarrow>
      (\<exists>prim. simt_intrinsic name = Inr prim \<and> table_lookup name = Some prim
         \<and> visit_For H B (For name loop_min extent body) s =
             (case codegen_Expr B (Call (IntT 32 1) prim [] Extern) s of
                Inl e \<Rightarrow> Inl e
              | Inr (v, s1) \<Rightarrow>
                  (case codegen_Stmt B body (sym_push name v s1) of
                     Inl e \<Rightarrow> Inl e
                   | Inr s2 \<Rightarrow> sym_pop name s2))))
   \<and> (\<not> is_gpu_var name \<longrightarrow>
      visit_For H B (For name loop_min extent body) s
        = llvm_visit_For B (For name loop_min extent body) s)
   \<and> sym_pop name (sym_push name v0 s) = Inr s"
proof (intro conjI impI)
  assume "is_gpu_var name \<and> \<not> is_const_zero H loop_min"
  then have g: "is_gpu_var name" and z: "\<not> is_const_zero H loop_min"
    by simp_all
  show "visit_For H B (For name loop_min extent body) s
        = Inl (InternalError ''is_const_zero(loop->min)'')"
    by (rule visit_For_not_zero [OF g z])
next
  assume a: "is_gpu_var name \<and> is_const_zero H loop_min"
  then obtain prim where p: "table_lookup name = Some prim"
    using is_gpu_var_table by blast
  then have "simt_intrinsic name = Inr prim"
    by (simp add: simt_intrinsic_table)
  with a p show "\<exists>prim. simt_intrinsic name = Inr prim \<and> table_lookup name = Some prim
         \<and> visit_For H B (For name loop_min extent body) s =
             (case codegen_Expr B (Call (IntT 32 1) prim [] Extern) s of
                Inl e \<Rightarrow> Inl e
              | Inr (v, s1) \<Rightarrow>
                  (case codegen_Stmt B body (sym_push name v s1) of
                     Inl e \<Rightarrow> Inl e
                   | Inr s2 \<Rightarrow> sym_pop name s2))"
    using visit_For_gpu [of name H loop_min prim B extent body s] by blast
next
  assume "\<not> is_gpu_var name"
  then show "visit_For H B (For name loop_min extent body) s
        = llvm_visit_For B (For name loop_min extent body) s"
    by (rule visit_For_other)
next
  show "sym_pop name (sym_push name v0 s) = Inr s" by (rule sym_pop_sym_push)
qed

lemma example_gpu_var: "is_gpu_var ''f.s0.x.__block_id_x''"
  by (simp add: is_gpu_var_def is_gpu_block_var_def ends_with_def)

lemma example_not_gpu_var: "\<not> is_gpu_var ''f.s0.y''"
  by (simp add: is_gpu_var_def is_gpu_block_var_def is_gpu_thread_var_def ends_with_def)

lemma example_lookup: "table_lookup ''f.s0.x.__block_id_x'' = Some ''llvm.nvvm.read.ptx.sreg.ctaid.x''"
  by (simp add: table_lookup_def simt_table_def ends_with_def)

theorem visit_For_gpu_axis_witness:
  "visit_For example_helpers example_base
      (For ''f.s0.x.__block_id_x'' (IntImm (IntT 32 1) 1) (IntImm (IntT 32 1) 8) example_body)
      example_state
     = Inl (InternalError ''is_const_zero(loop->min)'')
   \<and> (case visit_For example_helpers example_base
         (For ''f.s0.x.__block_id_x'' (IntImm (IntT 32 1) 0) (IntImm (IntT 32 1) 8) example_body)
         example_state of
        Inl e \<Rightarrow> False
      | Inr s' \<Rightarrow>
          block_insts s' (insert_block example_state)
            = [CallInst ''llvm.nvvm.read.ptx.sreg.ctaid.x'' [], LoweredStmt ''codegen'' example_body]
          \<and> symbol_table s' ''f.s0.x.__block_id_x'' = [])
   \<and> (case visit_For example_helpers example_base
         (For ''f.s0.y'' (IntImm (IntT 32 1) 0) (IntImm (IntT 32 1) 8) example_body)
         example_state of
        Inl e \<Rightarrow> False
      | Inr s' \<Rightarrow>
          block_insts s' (insert_block example_state)
            = [LoweredStmt ''CodeGen_LLVM''
                 (For ''f.s0.y'' (IntImm (IntT 32 1) 0) (IntImm (IntT 32 1) 8) example_body)])"
proof -
  have z1: "\<not> is_const_zero example_helpers (IntImm (IntT 32 1) 1)"
    and z0: "is_const_zero example_helpers (IntImm (IntT 32 1) 0)"
    by (simp_all add: example_helpers_def)
  note t1 = visit_For_gpu_axis [of "''f.s0.x.__block_id_x''" example_helpers "IntImm (IntT 32 1) 1"
      example_base "IntImm (IntT 32 1) 8" example_body example_state]
  note t2 = visit_For_gpu_axis [of "''f.s0.x.__block_id_x''" example_helpers "IntImm (IntT 32 1) 0"
      example_base "IntImm (IntT 32 1) 8" example_body example_state]
  note t3 = visit_For_gpu_axis [of "''f.s0.y''" example_helpers "IntImm (IntT 32 1) 0"
      example_base "IntImm (IntT 32 1) 8" example_body example_state]
  have c1: "visit_For example_helpers example_base
      (For ''f.s0.x.__block_id_x'' (IntImm (IntT 32 1) 1) (IntImm (IntT 32 1) 8) example_body)
      example_state = Inl (InternalError ''is_const_zero(loop->min)'')"
    using t1 example_gpu_var z1 by blast
  have c2: "visit_For example_helpers example_base
         (For ''f.s0.x.__block_id_x'' (IntImm (IntT 32 1) 0) (IntImm (IntT 32 1) 8) example_body)
         example_state =
         (case codegen_Expr example_base (Call (IntT 32 1) ''llvm.nvvm.read.ptx.sreg.ctaid.x'' [] Extern) example_state of
                Inl e \<Rightarrow> Inl e
              | Inr (v, s1) \<Rightarrow>
                  (case codegen_Stmt example_base example_body (sym_push ''f.s0.x.__block_id_x'' v s1) of
                     Inl e \<Rightarrow> Inl e
                   | Inr s2 \<Rightarrow> sym_pop ''f.s0.x.__block_id_x'' s2))"
    using t2 example_gpu_var z0 example_lookup by auto
  have c3: "visit_For example_helpers example_base
         (For ''f.s0.y'' (IntImm (IntT 32 1) 0) (IntImm (IntT 32 1) 8) example_body)
         example_state = llvm_visit_For example_base
         (For ''f.s0.y'' (IntImm (IntT 32 1) 0) (IntImm (IntT 32 1) 8) example_body) example_state"
    using t3 example_not_gpu_var by blast
  show ?thesis
    unfolding c1 c2 c3
    by (simp add: example_base_def generic_Stmt_def generic_Expr_def example_state_def
        insert_inst_def sym_push_def sym_pop_def)
qed

section \<open>Atomic regions and allocations\<close>

lemma visit_Atomic_mutex:
  "mutex_name \<noteq> [] \<Longrightarrow>
   visit_Atomic H B (Atomic producer_name mutex_name body) s = Inl UnsupportedConstruct"
  by simp

lemma visit_Atomic_no_mutex:
  "visit_Atomic H B (Atomic producer_name [] body) s =
    (case llvm_visit_Atomic B (Atomic producer_name [] body) (s\<lparr>emit_atomic_stores := True\<rparr>) of
       Inl e \<Rightarrow> Inl e
     | Inr s2 \<Rightarrow> Inr (s2\<lparr>emit_atomic_stores := emit_atomic_stores s\<rparr>))"
  by (simp add: Let_def)

lemma visit_Atomic_restores:
  "visit_Atomic H B (Atomic producer_name mutex_name body) s = Inr s' \<Longrightarrow>
   emit_atomic_stores s' = emit_atomic_stores s"
  by (auto simp: Let_def split: if_splits sum.splits)

lemma visit_Store_atomic_reject:
  "emit_atomic_stores s \<Longrightarrow> \<not> (is_const_one H predicate \<and> 32 \<le> bits (type_of v)) \<Longrightarrow>
   visit_Store H B (Store name v index param predicate alignment) s = Inl UnsupportedAtomicWidth"
  by auto

text \<open>
  Claim C4.  An atomic node with a non-empty mutex name fails with \<open>UnsupportedConstruct\<close>,
  whatever its body.  With an empty mutex name the atomic flag is set while the generic
  visitor lowers the body and the saved value is put back afterwards, so a lowering that
  returns leaves the flag as it found it.  A store lowered while the flag is set fails with
  \<open>UnsupportedAtomicWidth\<close> unless its predicate is trivially true and its value is at least
  32 bits wide.
\<close>

theorem atomic_region_rules:
  "(mutex_name \<noteq> [] \<longrightarrow>
      visit_Atomic H B (Atomic producer_name mutex_name body) s = Inl UnsupportedConstruct)
   \<and> visit_Atomic H B (Atomic producer_name [] body) s =
       (case llvm_visit_Atomic B (Atomic producer_name [] body) (s\<lparr>emit_atomic_stores := True\<rparr>) of
          Inl e \<Rightarrow> Inl e
        | Inr s2 \<Rightarrow> Inr (s2\<lparr>emit_atomic_stores := emit_atomic_stores s\<rparr>))
   \<and> (visit_Atomic H B (Atomic producer_name mutex_name body) s = Inr s' \<longrightarrow>
        emit_atomic_stores s' = emit_atomic_stores s)
   \<and> (emit_atomic_stores s \<and> \<not> (is_const_one H predicate \<and> 32 \<le> bits (type_of v)) \<longrightarrow>
        visit_Store H B (Store name v index param predicate alignment) s
          = Inl UnsupportedAtomicWidth)"
  using visit_Atomic_mutex [of mutex_name H B producer_name body s]
    visit_Atomic_no_mutex [of H B producer_name body s]
    visit_Atomic_restores [of H B producer_name mutex_name body s s']
    visit_Store_atomic_reject [of s H predicate v B name index param alignment]
  by blast


lemma visit_Allocate_new_expr:
  "new_expr \<noteq> None \<Longrightarrow>
   visit_Allocate H B (Allocate name t memory_type extents condition body new_expr free_function) s
     = Inl UnsupportedConstruct"
  by simp

lemma visit_Allocate_shared:
  "visit_Allocate H B (Allocate name t GPUShared extents condition body None free_function) s
     = codegen_Stmt B body (sym_push name (ConstantNull (PointerType (IntegerType 8) 3)) s)"
  by (simp add: i8_t_def)

lemma sym_push_block_insts: "block_insts (sym_push name v s) = block_insts s"
  and sym_push_insert_block: "insert_block (sym_push name v s) = insert_block s"
  and sym_push_top: "symbol_table (sym_push name v s) name = v # symbol_table s name"
  by (simp_all add: sym_push_def)

lemma visit_Allocate_dynamic:
  "memory_type \<noteq> GPUShared \<Longrightarrow> \<not> 0 < constant_allocation_size H extents \<Longrightarrow>
   visit_Allocate H B (Allocate name t memory_type extents condition body None free_function) s
     = Inl DynamicSizeInKernel"
  by simp

lemma visit_Allocate_local:
  "memory_type \<noteq> GPUShared \<Longrightarrow> 0 < constant_allocation_size H extents \<Longrightarrow>
   visit_Allocate H B (Allocate name t memory_type extents condition body None free_function) s
     = codegen_Stmt B body
         (sym_push name
            (AllocaInst (llvm_type_of H t) (ConstantInt (IntegerType 32) (constant_allocation_size H extents)))
            (with_entry_alloca
               (AllocaInst (llvm_type_of H t) (ConstantInt (IntegerType 32) (constant_allocation_size H extents)))
               s))"
  by (simp add: Let_def CreateAlloca_def SetInsertPoint_def GetInsertBlock_def insert_inst_def
      with_entry_alloca_def i32_t_def sym_push_def)

lemma with_entry_alloca_frame:
  "insert_block (with_entry_alloca a s) = insert_block s"
  "block_insts (with_entry_alloca a s) (entry_block s) = block_insts s (entry_block s) @ [a]"
  "bb \<noteq> entry_block s \<Longrightarrow> block_insts (with_entry_alloca a s) bb = block_insts s bb"
  "symbol_table (with_entry_alloca a s) = symbol_table s"
  by (simp_all add: with_entry_alloca_def)

lemma visit_Free_eq: "visit_Free H B (Free name) s = sym_pop name s"
  by simp

lemma sym_pop_block_insts: "sym_pop name s = Inr s' \<Longrightarrow> block_insts s' = block_insts s"
  by (auto simp: sym_pop_def split: list.splits)

theorem atomic_region_rules_witness:
  "visit_Atomic example_helpers example_atomic_base (Atomic ''f'' ''f.mutex'' (example_store 32))
      example_state = Inl UnsupportedConstruct
   \<and> visit_Atomic example_helpers example_atomic_base (Atomic ''f'' [] (example_store 16))
      example_state = Inl UnsupportedAtomicWidth
   \<and> (case visit_Atomic example_helpers example_atomic_base (Atomic ''f'' [] (example_store 32))
             example_state of
        Inl e \<Rightarrow> False
      | Inr s' \<Rightarrow> emit_atomic_stores s' = False
          \<and> block_insts s' (insert_block example_state)
              = [LoweredStmt ''CodeGen_LLVM'' (example_store 32)])
   \<and> visit_Store example_helpers example_base (example_store 16)
        (example_state\<lparr>emit_atomic_stores := True\<rparr>) = Inl UnsupportedAtomicWidth"
proof -
  note t1 = atomic_region_rules [of "''f.mutex''" example_helpers example_atomic_base "''f''"
      "example_store 32" example_state]
  have c1: "visit_Atomic example_helpers example_atomic_base
      (Atomic ''f'' ''f.mutex'' (example_store 32)) example_state = Inl UnsupportedConstruct"
    using t1 by simp
  note t2 = atomic_region_rules [of "[]" example_helpers example_atomic_base "''f''"
      "example_store 16" example_state]
  have c2: "visit_Atomic example_helpers example_atomic_base (Atomic ''f'' [] (example_store 16))
      example_state = Inl UnsupportedAtomicWidth"
    using t2
    by (simp add: example_atomic_base_def example_store_def example_state_def example_helpers_def
        IntT_def)
  have c3: "\<exists>s'. visit_Atomic example_helpers example_atomic_base (Atomic ''f'' [] (example_store 32))
             example_state = Inr s'
          \<and> block_insts s' (insert_block example_state)
              = [LoweredStmt ''CodeGen_LLVM'' (example_store 32)]"
    by (simp add: example_atomic_base_def example_base_def generic_Stmt_def example_store_def
        example_state_def example_helpers_def IntT_def insert_inst_def)
  then obtain s' where s': "visit_Atomic example_helpers example_atomic_base
      (Atomic ''f'' [] (example_store 32)) example_state = Inr s'"
    and b: "block_insts s' (insert_block example_state)
              = [LoweredStmt ''CodeGen_LLVM'' (example_store 32)]"
    by blast
  have "emit_atomic_stores s' = emit_atomic_stores example_state"
    using atomic_region_rules [of "[]" example_helpers example_atomic_base "''f''"
      "example_store 32" example_state s'] s' by blast
  then have c3': "emit_atomic_stores s' = False"
    by (simp add: example_state_def)
  have h4: "emit_atomic_stores (example_state\<lparr>emit_atomic_stores := True\<rparr>)
      \<and> \<not> (is_const_one example_helpers (UIntImm (UIntT 1 1) 1)
            \<and> 32 \<le> bits (type_of (Variable (IntT 16 1) ''v'')))"
    by (simp add: IntT_def)
  have c4: "visit_Store example_helpers example_base (example_store 16)
        (example_state\<lparr>emit_atomic_stores := True\<rparr>) = Inl UnsupportedAtomicWidth"
    unfolding example_store_def
    using atomic_region_rules [of "[]" example_helpers example_base "''f''" "example_store 16"
        "example_state\<lparr>emit_atomic_stores := True\<rparr>" _ "UIntImm (UIntT 1 1) 1"
        "Variable (IntT 16 1) ''v''" "''out''" "Variable (IntT 32 1) ''i''" None
        "\<lparr>modulus = 1, remainder = 0\<rparr>"] h4
    by blast
  show ?thesis
    using c1 c2 c4 s' b c3' by simp
qed

text \<open>
  Claim C5.  An allocation with a custom new expression fails with \<open>UnsupportedConstruct\<close>.
  A shared allocation binds the name to the null pointer of address space 3, inserts no
  instruction, and lowers the body.  A local allocation fails with \<open>DynamicSizeInKernel\<close>
  unless its constant size is positive; otherwise one \<^verbatim>\<open>alloca\<close> of that size is appended to
  the entry block, every other block and the insertion point are as before, the name is
  bound to the \<^verbatim>\<open>alloca\<close>, and the result is that of lowering the body in that state: the
  binding is not popped.  \<^verbatim>\<open>Free\<close> pops the binding and inserts no instruction.
\<close>

theorem visit_Allocate_rules:
  "(new_expr \<noteq> None \<longrightarrow>
      visit_Allocate H B (Allocate name t memory_type extents condition body new_expr free_function) s
        = Inl UnsupportedConstruct)
   \<and> visit_Allocate H B (Allocate name t GPUShared extents condition body None free_function) s
        = codegen_Stmt B body (sym_push name (ConstantNull (PointerType (IntegerType 8) 3)) s)
   \<and> block_insts (sym_push name (ConstantNull (PointerType (IntegerType 8) 3)) s) = block_insts s
   \<and> (memory_type \<noteq> GPUShared \<and> \<not> 0 < constant_allocation_size H extents \<longrightarrow>
        visit_Allocate H B (Allocate name t memory_type extents condition body None free_function) s
          = Inl DynamicSizeInKernel)
   \<and> (memory_type \<noteq> GPUShared \<and> 0 < constant_allocation_size H extents \<longrightarrow>
        (let a = AllocaInst (llvm_type_of H t)
                   (ConstantInt (IntegerType 32) (constant_allocation_size H extents));
             s1 = with_entry_alloca a s
         in visit_Allocate H B
              (Allocate name t memory_type extents condition body None free_function) s
              = codegen_Stmt B body (sym_push name a s1)
            \<and> block_insts s1 (entry_block s) = block_insts s (entry_block s) @ [a]
            \<and> (\<forall>bb. bb \<noteq> entry_block s \<longrightarrow> block_insts s1 bb = block_insts s bb)
            \<and> insert_block s1 = insert_block s
            \<and> symbol_table (sym_push name a s1) name = a # symbol_table s name))
   \<and> visit_Free H B (Free name) s = sym_pop name s
   \<and> (sym_pop name s = Inr s' \<longrightarrow>
        block_insts s' = block_insts s \<and> symbol_table s' name = tl (symbol_table s name))"
proof (intro conjI impI)
  show "visit_Allocate H B (Allocate name t memory_type extents condition body new_expr free_function) s
        = Inl UnsupportedConstruct" if "new_expr \<noteq> None"
    using that by (rule visit_Allocate_new_expr)
  show "visit_Allocate H B (Allocate name t GPUShared extents condition body None free_function) s
        = codegen_Stmt B body (sym_push name (ConstantNull (PointerType (IntegerType 8) 3)) s)"
    by (rule visit_Allocate_shared)
  show "block_insts (sym_push name (ConstantNull (PointerType (IntegerType 8) 3)) s) = block_insts s"
    by (rule sym_push_block_insts)
  show "visit_Allocate H B (Allocate name t memory_type extents condition body None free_function) s
          = Inl DynamicSizeInKernel"
    if "memory_type \<noteq> GPUShared \<and> \<not> 0 < constant_allocation_size H extents"
    using that visit_Allocate_dynamic by blast
  show "let a = AllocaInst (llvm_type_of H t)
                   (ConstantInt (IntegerType 32) (constant_allocation_size H extents));
             s1 = with_entry_alloca a s
         in visit_Allocate H B
              (Allocate name t memory_type extents condition body None free_function) s
              = codegen_Stmt B body (sym_push name a s1)
            \<and> block_insts s1 (entry_block s) = block_insts s (entry_block s) @ [a]
            \<and> (\<forall>bb. bb \<noteq> entry_block s \<longrightarrow> block_insts s1 bb = block_insts s bb)
            \<and> insert_block s1 = insert_block s
            \<and> symbol_table (sym_push name a s1) name = a # symbol_table s name"
    if h: "memory_type \<noteq> GPUShared \<and> 0 < constant_allocation_size H extents"
    unfolding Let_def
    using visit_Allocate_local [of memory_type H extents B name t condition body free_function s] h
    by (simp add: with_entry_alloca_frame sym_push_top)
  show "visit_Free H B (Free name) s = sym_pop name s"
    by (rule visit_Free_eq)
  show "block_insts s' = block_insts s" if "sym_pop name s = Inr s'"
    using that by (rule sym_pop_block_insts)
  show "symbol_table s' name = tl (symbol_table s name)" if "sym_pop name s = Inr s'"
    using sym_pop_Inr [OF that] by simp
qed

theorem visit_Allocate_rules_witness:
  "visit_Allocate example_helpers example_base
      (example_alloc Stack (IntImm (IntT 32 1) 16) (Some (Variable (IntT 32 1) ''custom'')))
      example_state = Inl UnsupportedConstruct
   \<and> visit_Allocate example_helpers example_base
      (example_alloc Stack (Variable (IntT 32 1) ''n'') None) example_state
        = Inl DynamicSizeInKernel
   \<and> (case visit_Allocate example_helpers example_base
             (example_alloc Stack (IntImm (IntT 32 1) 16) None) example_state of
         Inl e \<Rightarrow> False
       | Inr s' \<Rightarrow>
           block_insts s' (BasicBlock ''kernel'' ''entry'')
             = [AllocaInst (IntegerType 32) (ConstantInt (IntegerType 32) 16)]
           \<and> block_insts s' (BasicBlock ''kernel'' ''body'')
             = [LoweredStmt ''codegen'' (Evaluate (IntImm (IntT 32 1) 0))]
           \<and> symbol_table s' ''buf''
             = [AllocaInst (IntegerType 32) (ConstantInt (IntegerType 32) 16)]
           \<and> (case visit_Free example_helpers example_base (Free ''buf'') s' of
                 Inl e \<Rightarrow> False
               | Inr s'' \<Rightarrow> symbol_table s'' ''buf'' = [] \<and> block_insts s'' = block_insts s'))"
proof -
  note t1 = visit_Allocate_rules [of "Some (Variable (IntT 32 1) ''custom'')" example_helpers
      example_base "''buf''" "FloatT 32 1" Stack "[IntImm (IntT 32 1) 16]" "UIntImm (UIntT 1 1) 1"
      "Evaluate (IntImm (IntT 32 1) 0)" "[]" example_state]
  have c1: "visit_Allocate example_helpers example_base
      (example_alloc Stack (IntImm (IntT 32 1) 16) (Some (Variable (IntT 32 1) ''custom'')))
      example_state = Inl UnsupportedConstruct"
    unfolding example_alloc_def using t1 by blast
  have sz: "constant_allocation_size example_helpers [Variable (IntT 32 1) ''n''] = 0"
    "constant_allocation_size example_helpers [IntImm (IntT 32 1) 16] = 16"
    by (simp_all add: example_helpers_def)
  note t2 = visit_Allocate_rules [of None example_helpers
      example_base "''buf''" "FloatT 32 1" Stack "[Variable (IntT 32 1) ''n'']" "UIntImm (UIntT 1 1) 1"
      "Evaluate (IntImm (IntT 32 1) 0)" "[]" example_state]
  have c2: "visit_Allocate example_helpers example_base
      (example_alloc Stack (Variable (IntT 32 1) ''n'') None) example_state
        = Inl DynamicSizeInKernel"
    unfolding example_alloc_def using t2 sz by simp
  note t3 = visit_Allocate_rules [of None example_helpers
      example_base "''buf''" "FloatT 32 1" Stack "[IntImm (IntT 32 1) 16]" "UIntImm (UIntT 1 1) 1"
      "Evaluate (IntImm (IntT 32 1) 0)" "[]" example_state]
  have ty: "llvm_type_of example_helpers (FloatT 32 1) = IntegerType 32"
    by (simp add: example_helpers_def FloatT_def)
  have c3: "visit_Allocate example_helpers example_base
             (example_alloc Stack (IntImm (IntT 32 1) 16) None) example_state
      = codegen_Stmt example_base (Evaluate (IntImm (IntT 32 1) 0))
          (sym_push ''buf'' (AllocaInst (IntegerType 32) (ConstantInt (IntegerType 32) 16))
             (with_entry_alloca (AllocaInst (IntegerType 32) (ConstantInt (IntegerType 32) 16))
                example_state))"
    unfolding example_alloc_def using t3 sz ty by (simp add: Let_def)
  show ?thesis
    unfolding c1 c2 c3
    by (simp add: example_base_def generic_Stmt_def example_state_def with_entry_alloca_def
        sym_push_def sym_pop_def insert_inst_def)
qed

section \<open>The barrier intrinsic\<close>

lemma getFunction_name: "getFunction s name = Some f \<Longrightarrow> fname f = name"
  by (auto simp: getFunction_def find_Some_iff split: option.splits)

lemma visit_Call_barrier_arity:
  "is_intrinsic call_type name gpu_thread_barrier \<Longrightarrow> length args \<noteq> 1 \<Longrightarrow>
   visit_Call H B (Call t name args call_type) s = Inl MalformedIntrinsic"
  by simp

lemma visit_Call_barrier_not_const:
  "is_intrinsic call_type name gpu_thread_barrier \<Longrightarrow> as_const_int H a = None \<Longrightarrow>
   visit_Call H B (Call t name [a] call_type) s = Inl MalformedIntrinsic"
  by simp

lemma visit_Call_barrier_emit:
  "is_intrinsic call_type name gpu_thread_barrier \<Longrightarrow> as_const_int H a = Some fence_type \<Longrightarrow>
   getFunction s ''llvm.nvvm.barrier0'' = Some f \<Longrightarrow>
   visit_Call H B (Call t name [a] call_type) s
     = Inr (ConstantInt (IntegerType 32) 0, insert_inst (CallInst ''llvm.nvvm.barrier0'' []) s)"
  using getFunction_name [of s "''llvm.nvvm.barrier0''" f]
  by (simp add: CreateCall_def i32_t_def)

lemma visit_Call_barrier_missing:
  "is_intrinsic call_type name gpu_thread_barrier \<Longrightarrow> as_const_int H a = Some fence_type \<Longrightarrow>
   getFunction s ''llvm.nvvm.barrier0'' = None \<Longrightarrow>
   visit_Call H B (Call t name [a] call_type) s
     = Inl (InternalError ''Could not find PTX barrier intrinsic (llvm.nvvm.barrier0)'')"
  by simp

text \<open>
  Claim C6.  A barrier call that does not carry exactly one argument, or whose argument is
  not a constant integer, fails with \<open>MalformedIntrinsic\<close>.  A well-formed one, lowered in a
  module that declares \<^verbatim>\<open>llvm.nvvm.barrier0\<close> (the module is set up by \<^verbatim>\<open>init_module\<close> from
  the initial PTX device module), inserts a call of that function and yields the 32-bit
  constant zero.  The fence type is checked to be a constant and then not read: two
  well-formed calls with any two fence types are lowered alike.
\<close>

theorem visit_Call_barrier:
  "is_intrinsic call_type name gpu_thread_barrier \<Longrightarrow>
   (length args \<noteq> 1 \<longrightarrow> visit_Call H B (Call t name args call_type) s = Inl MalformedIntrinsic)
   \<and> (as_const_int H a = None \<longrightarrow>
        visit_Call H B (Call t name [a] call_type) s = Inl MalformedIntrinsic)
   \<and> (as_const_int H a = Some fence_type \<and> getFunction s ''llvm.nvvm.barrier0'' \<noteq> None \<longrightarrow>
        visit_Call H B (Call t name [a] call_type) s
          = Inr (ConstantInt (IntegerType 32) 0,
                 insert_inst (CallInst ''llvm.nvvm.barrier0'' []) s))
   \<and> (as_const_int H a = Some fence_type \<and> as_const_int H a' = Some fence_type' \<longrightarrow>
        visit_Call H B (Call t name [a] call_type) s
          = visit_Call H B (Call t name [a'] call_type) s)"
proof (intro conjI impI)
  assume i: "is_intrinsic call_type name gpu_thread_barrier"
  show "visit_Call H B (Call t name args call_type) s = Inl MalformedIntrinsic"
    if "length args \<noteq> 1"
    using i that by (rule visit_Call_barrier_arity)
  show "visit_Call H B (Call t name [a] call_type) s = Inl MalformedIntrinsic"
    if "as_const_int H a = None"
    using i that by (rule visit_Call_barrier_not_const)
  show "visit_Call H B (Call t name [a] call_type) s
          = Inr (ConstantInt (IntegerType 32) 0,
                 insert_inst (CallInst ''llvm.nvvm.barrier0'' []) s)"
    if h: "as_const_int H a = Some fence_type \<and> getFunction s ''llvm.nvvm.barrier0'' \<noteq> None"
  proof -
    from h obtain f where "getFunction s ''llvm.nvvm.barrier0'' = Some f" by blast
    with i h show ?thesis by (blast intro: visit_Call_barrier_emit)
  qed
  show "visit_Call H B (Call t name [a] call_type) s
          = visit_Call H B (Call t name [a'] call_type) s"
    if h: "as_const_int H a = Some fence_type \<and> as_const_int H a' = Some fence_type'"
  proof (cases "getFunction s ''llvm.nvvm.barrier0''")
    case None
    then show ?thesis
      using i h visit_Call_barrier_missing [of call_type name H a fence_type s B t]
        visit_Call_barrier_missing [of call_type name H a' fence_type' s B t]
      by simp
  next
    case (Some f)
    then show ?thesis
      using i h visit_Call_barrier_emit [of call_type name H a fence_type s f B t]
        visit_Call_barrier_emit [of call_type name H a' fence_type' s f B t]
      by simp
  qed
qed

lemma example_barrier_intrinsic: "is_intrinsic Intrinsic gpu_thread_barrier gpu_thread_barrier"
  by (simp add: is_intrinsic_def)

lemma example_getFunction:
  "getFunction example_state ''llvm.nvvm.barrier0'' \<noteq> None"
  by (simp add: getFunction_def example_state_def example_module_def)

lemma example_as_const_int:
  "as_const_int example_helpers (IntImm (IntT 32 1) v) = Some v"
  "as_const_int example_helpers (Variable (IntT 32 1) n) = None"
  by (simp_all add: example_helpers_def)

theorem visit_Call_barrier_witness:
  "visit_Call example_helpers example_base (example_barrier []) example_state
     = Inl MalformedIntrinsic
   \<and> visit_Call example_helpers example_base
        (example_barrier [Variable (IntT 32 1) ''fence'']) example_state = Inl MalformedIntrinsic
   \<and> visit_Call example_helpers example_base (example_barrier [IntImm (IntT 32 1) 1]) example_state
     = Inr (ConstantInt (IntegerType 32) 0,
            insert_inst (CallInst ''llvm.nvvm.barrier0'' []) example_state)
   \<and> visit_Call example_helpers example_base (example_barrier [IntImm (IntT 32 1) 3]) example_state
     = visit_Call example_helpers example_base (example_barrier [IntImm (IntT 32 1) 1])
         example_state"
proof -
  note t1 = visit_Call_barrier [OF example_barrier_intrinsic, of "[]" example_helpers example_base
      "IntT 32 1" example_state "Variable (IntT 32 1) ''fence''"]
  note t2 = visit_Call_barrier [OF example_barrier_intrinsic, of "[]" example_helpers example_base
      "IntT 32 1" example_state "IntImm (IntT 32 1) 1" 1]
  note t3 = visit_Call_barrier [OF example_barrier_intrinsic, of "[]" example_helpers example_base
      "IntT 32 1" example_state "IntImm (IntT 32 1) 3" 3 "IntImm (IntT 32 1) 1" 1]
  have c1: "visit_Call example_helpers example_base (Call (IntT 32 1) gpu_thread_barrier [] Intrinsic)
      example_state = Inl MalformedIntrinsic"
    using t1 by simp
  have c2: "visit_Call example_helpers example_base
      (Call (IntT 32 1) gpu_thread_barrier [Variable (IntT 32 1) ''fence''] Intrinsic)
      example_state = Inl MalformedIntrinsic"
    using t1 example_as_const_int(2) by blast
  have c3: "visit_Call example_helpers example_base
      (Call (IntT 32 1) gpu_thread_barrier [IntImm (IntT 32 1) 1] Intrinsic) example_state
      = Inr (ConstantInt (IntegerType 32) 0,
            insert_inst (CallInst ''llvm.nvvm.barrier0'' []) example_state)"
    using t2 example_as_const_int(1) example_getFunction by blast
  have c4: "visit_Call example_helpers example_base
      (Call (IntT 32 1) gpu_thread_barrier [IntImm (IntT 32 1) 3] Intrinsic) example_state
      = visit_Call example_helpers example_base
      (Call (IntT 32 1) gpu_thread_barrier [IntImm (IntT 32 1) 1] Intrinsic) example_state"
    using t3 example_as_const_int(1) by blast
  show ?thesis
    unfolding example_barrier_def using c1 c2 c3 c4 by blast
qed

section \<open>Atomic support\<close>

text \<open>
  Claim C8.  \<^verbatim>\<open>supports_atomic_add\<close> is false below 32 bits; true for every integer type of
  32 bits or more; true for 32-bit floating point; for 64-bit floating point, true exactly
  when the target's CUDA capability lower bound is at least 61; false in every other case.
\<close>

theorem supports_atomic_add_cases:
  "(bits t < 32 \<longrightarrow> \<not> supports_atomic_add lb target t)
   \<and> (32 \<le> bits t \<and> is_int_or_uint t \<longrightarrow> supports_atomic_add lb target t)
   \<and> (is_float t \<and> bits t = 32 \<longrightarrow> supports_atomic_add lb target t)
   \<and> (is_float t \<and> bits t = 64 \<longrightarrow> supports_atomic_add lb target t = (61 \<le> lb target))
   \<and> (32 \<le> bits t \<and> \<not> is_int_or_uint t \<and> \<not> (is_float t \<and> (bits t = 32 \<or> bits t = 64))
        \<longrightarrow> \<not> supports_atomic_add lb target t)"
  by (auto simp: supports_atomic_add_def is_float_def is_int_or_uint_def)

theorem supports_atomic_add_cases_witness:
  "\<not> supports_atomic_add (\<lambda>t. 80) \<lparr>features = {CUDA, CUDACapability80}\<rparr> (IntT 16 1)
   \<and> supports_atomic_add (\<lambda>t. 20) \<lparr>features = {}\<rparr> (UIntT 64 1)
   \<and> supports_atomic_add (\<lambda>t. 20) \<lparr>features = {}\<rparr> (FloatT 32 1)
   \<and> supports_atomic_add (\<lambda>t. 61) \<lparr>features = {CUDA, CUDACapability61}\<rparr> (FloatT 64 1)
   \<and> \<not> supports_atomic_add (\<lambda>t. 50) \<lparr>features = {CUDA, CUDACapability50}\<rparr> (FloatT 64 1)
   \<and> \<not> supports_atomic_add (\<lambda>t. 80) \<lparr>features = {CUDA, CUDACapability80}\<rparr>
         \<lparr>code = halide_type_handle, bits = 64, lanes = 1\<rparr>"
  using supports_atomic_add_cases [of "IntT 16 1" "\<lambda>t. 80" "\<lparr>features = {CUDA, CUDACapability80}\<rparr>"]
    supports_atomic_add_cases [of "UIntT 64 1" "\<lambda>t. 20" "\<lparr>features = {}\<rparr>"]
    supports_atomic_add_cases [of "FloatT 32 1" "\<lambda>t. 20" "\<lparr>features = {}\<rparr>"]
    supports_atomic_add_cases [of "FloatT 64 1" "\<lambda>t. 61" "\<lparr>features = {CUDA, CUDACapability61}\<rparr>"]
    supports_atomic_add_cases [of "FloatT 64 1" "\<lambda>t. 50" "\<lparr>features = {CUDA, CUDACapability50}\<rparr>"]
    supports_atomic_add_cases [of "\<lparr>code = halide_type_handle, bits = 64, lanes = 1\<rparr>" "\<lambda>t. 80" "\<lparr>features = {CUDA, CUDACapability80}\<rparr>"]
  by (simp add: IntT_def UIntT_def FloatT_def is_float_def is_int_or_uint_def)

section \<open>Wide-access fusion\<close>

lemma visit_Load_wide:
  "wide_access H (Ramp base stride n) predicate (bits t) alignment \<Longrightarrow>
   visit_Load H B (Load t name (Ramp base stride n) img param predicate alignment) s
     = codegen_Expr B
         (reinterpret t
            (Load (UIntT 128 1) name (simplify H (div_const H base 4)) img param
               (const_true H 1) (mr_div H alignment 4))) s"
  by (simp add: wide_access_def Let_def)

lemma visit_Load_generic:
  "\<not> wide_access H index predicate (bits t) alignment \<Longrightarrow>
   visit_Load H B (Load t name index img param predicate alignment) s
     = llvm_visit_Load B (Load t name index img param predicate alignment) s"
  by (cases index) (auto simp: wide_access_def Let_def)

lemma visit_Store_wide:
  "atomic_store_ok H predicate v s \<Longrightarrow>
   wide_access H (Ramp base stride n) predicate (bits (type_of v)) alignment \<Longrightarrow>
   visit_Store H B (Store name v (Ramp base stride n) param predicate alignment) s
     = codegen_Stmt B
         (Store name (reinterpret (UIntT 128 1) v) (simplify H (div_const H base 4)) param
            (const_true H 1) (mr_div H alignment 4)) s"
  by (simp add: wide_access_def atomic_store_ok_def Let_def)

lemma visit_Store_generic:
  "atomic_store_ok H predicate v s \<Longrightarrow>
   \<not> wide_access H index predicate (bits (type_of v)) alignment \<Longrightarrow>
   visit_Store H B (Store name v index param predicate alignment) s
     = llvm_visit_Store B (Store name v index param predicate alignment) s"
  by (cases index) (auto simp: wide_access_def atomic_store_ok_def Let_def split: if_splits)

lemma visit_Store_rejected:
  "\<not> atomic_store_ok H predicate v s \<Longrightarrow>
   visit_Store H B (Store name v index param predicate alignment) s = Inl UnsupportedAtomicWidth"
  by (auto simp: atomic_store_ok_def split: if_splits)

lemma wide_access_atomic_ok:
  "wide_access H (Ramp base stride n) predicate (bits (type_of v)) alignment \<Longrightarrow>
   atomic_store_ok H predicate v s"
  by (simp add: wide_access_def atomic_store_ok_def)

lemma type_of_reinterpret: "type_of (reinterpret t e) = t"
  by (simp add: reinterpret_def)

lemma not_wide_access_128:
  "\<not> wide_access H index predicate (bits (type_of (reinterpret (UIntT 128 1) v))) alignment"
  by (cases index) (simp_all add: wide_access_def type_of_reinterpret UIntT_def)

text \<open>
  Claim C2, as the code has it.  A load that meets the condition is lowered as the
  reinterpretation, to the load's own type, of one 128-bit load at index \<open>simplify (base / 4)\<close>
  with the alignment divided by 4; a load that fails any part of the condition goes to the
  generic visitor.  A store that passes the atomic check and meets the condition is lowered
  as one 128-bit store, at that index and alignment, of the value reinterpreted to the
  128-bit type (the reinterpretation is of the stored value and comes before the access);
  a store that passes the atomic check and fails any part of the condition goes to the
  generic visitor; a store that fails the atomic check fails with \<open>UnsupportedAtomicWidth\<close>
  and reaches neither.
\<close>

theorem wide_access_fusion:
  "(wide_access H (Ramp base stride n) predicate (bits t) alignment \<longrightarrow>
      visit_Load H B (Load t name (Ramp base stride n) img param predicate alignment) s
        = codegen_Expr B
            (reinterpret t
               (Load (UIntT 128 1) name (simplify H (div_const H base 4)) img param
                  (const_true H 1) (mr_div H alignment 4))) s)
   \<and> (\<not> wide_access H index predicate (bits t) alignment \<longrightarrow>
        visit_Load H B (Load t name index img param predicate alignment) s
          = llvm_visit_Load B (Load t name index img param predicate alignment) s)
   \<and> (atomic_store_ok H predicate v s
        \<and> wide_access H (Ramp base stride n) predicate (bits (type_of v)) alignment \<longrightarrow>
        visit_Store H B (Store name v (Ramp base stride n) param predicate alignment) s
          = codegen_Stmt B
              (Store name (reinterpret (UIntT 128 1) v) (simplify H (div_const H base 4)) param
                 (const_true H 1) (mr_div H alignment 4)) s)
   \<and> (atomic_store_ok H predicate v s
        \<and> \<not> wide_access H index predicate (bits (type_of v)) alignment \<longrightarrow>
        visit_Store H B (Store name v index param predicate alignment) s
          = llvm_visit_Store B (Store name v index param predicate alignment) s)
   \<and> (\<not> atomic_store_ok H predicate v s \<longrightarrow>
        visit_Store H B (Store name v index param predicate alignment) s
          = Inl UnsupportedAtomicWidth)"
  using visit_Load_wide [of H base stride n predicate t alignment B name img param s]
    visit_Load_generic [of H index predicate t alignment B name img param s]
    visit_Store_wide [of H predicate v s base stride n alignment B name param]
    visit_Store_generic [of H predicate v s index alignment B name param]
    visit_Store_rejected [of H predicate v s B name index param alignment]
  by blast

lemma example_wide_access:
  "wide_access example_helpers (example_ramp 1 4) (UIntImm (UIntT 1 4) 1) 32 \<lparr>modulus = 4, remainder = 0\<rparr>"
  "\<not> wide_access example_helpers (example_ramp 2 4) (UIntImm (UIntT 1 4) 1) 32 \<lparr>modulus = 4, remainder = 0\<rparr>"
  "wide_access example_helpers (example_ramp 1 4) (UIntImm (UIntT 1 4) 1) 32 \<lparr>modulus = 8, remainder = 4\<rparr>"
  "\<not> wide_access example_helpers (example_ramp 1 8) (UIntImm (UIntT 1 4) 1) 32 \<lparr>modulus = 8, remainder = 4\<rparr>"
  "\<not> wide_access example_helpers (example_ramp 1 4) (Variable (UIntT 1 4) ''p'') 32 \<lparr>modulus = 8, remainder = 4\<rparr>"
  by (simp_all add: wide_access_def example_ramp_def example_helpers_def)

lemma example_atomic_store_ok:
  "atomic_store_ok example_helpers p (Variable (IntT 32 4) ''v'') example_state"
  "\<not> atomic_store_ok example_helpers (Variable (UIntT 1 4) ''p'') (Variable (IntT 32 4) ''v'') atomic_state"
  "atomic_store_ok example_helpers (UIntImm (UIntT 1 4) 1) (Variable (IntT 32 4) ''v'') atomic_state"
  by (simp_all add: atomic_store_ok_def example_state_def atomic_state_def example_helpers_def IntT_def)

lemma example_fused_forms:
  "reinterpret (IntT 32 4)
     (Load (UIntT 128 1) ''in'' (simplify example_helpers (div_const example_helpers (Variable (IntT 32 1) ''x'') 4))
        None None (const_true example_helpers 1) (mr_div example_helpers \<lparr>modulus = 4, remainder = 0\<rparr> 4))
   = Call (IntT 32 4) ''reinterpret''
       [Load (UIntT 128 1) ''in'' (Div (Variable (IntT 32 1) ''x'') (IntImm (IntT 32 1) 4)) None None
          (UIntImm (UIntT 1 1) 1) \<lparr>modulus = 1, remainder = 0\<rparr>] PureIntrinsic"
  "Store ''out'' (reinterpret (UIntT 128 1) (Variable (IntT 32 4) ''v''))
     (simplify example_helpers (div_const example_helpers (Variable (IntT 32 1) ''x'') 4)) None
     (const_true example_helpers 1) (mr_div example_helpers \<lparr>modulus = 8, remainder = 4\<rparr> 4)
   = example_wide_store"
  by (simp_all add: reinterpret_def reinterpret_name_def div_const_def const_true_def
      example_helpers_def example_wide_store_def is_uint_def IntT_def UIntT_def)

theorem wide_access_fusion_witness:
  "visit_Load example_helpers example_base (example_load (example_ramp 1 4)) example_state
     = codegen_Expr example_base
         (Call (IntT 32 4) ''reinterpret''
           [Load (UIntT 128 1) ''in'' (Div (Variable (IntT 32 1) ''x'') (IntImm (IntT 32 1) 4))
              None None (UIntImm (UIntT 1 1) 1) \<lparr>modulus = 1, remainder = 0\<rparr>] PureIntrinsic)
         example_state
   \<and> visit_Load example_helpers example_base (example_load (example_ramp 2 4)) example_state
     = llvm_visit_Load example_base (example_load (example_ramp 2 4)) example_state
   \<and> visit_Store example_helpers example_base
        (example_vector_store (example_ramp 1 4) (UIntImm (UIntT 1 4) 1)) example_state
     = codegen_Stmt example_base example_wide_store example_state
   \<and> visit_Store example_helpers example_base
        (example_vector_store (example_ramp 1 8) (UIntImm (UIntT 1 4) 1)) example_state
     = llvm_visit_Store example_base
        (example_vector_store (example_ramp 1 8) (UIntImm (UIntT 1 4) 1)) example_state
   \<and> visit_Store example_helpers example_base
        (example_vector_store (example_ramp 1 4) (Variable (UIntT 1 4) ''p'')) atomic_state
     = Inl UnsupportedAtomicWidth"
proof -
  have b: "bits (IntT 32 4) = 32" "bits (type_of (Variable (IntT 32 4) ''v'')) = 32"
    by (simp_all add: IntT_def)
  have c1: "visit_Load example_helpers example_base (example_load (example_ramp 1 4)) example_state
     = codegen_Expr example_base
         (Call (IntT 32 4) ''reinterpret''
           [Load (UIntT 128 1) ''in'' (Div (Variable (IntT 32 1) ''x'') (IntImm (IntT 32 1) 4))
              None None (UIntImm (UIntT 1 1) 1) \<lparr>modulus = 1, remainder = 0\<rparr>] PureIntrinsic)
         example_state"
    unfolding example_load_def
    using wide_access_fusion [of example_helpers "Variable (IntT 32 1) ''x''" "IntImm (IntT 32 1) 1" 4
        "UIntImm (UIntT 1 4) 1" "IntT 32 4" "\<lparr>modulus = 4, remainder = 0\<rparr>" example_base "''in''"
        None None example_state]
      example_wide_access(1) example_fused_forms(1) b
    by (simp add: example_ramp_def)
  have c2: "visit_Load example_helpers example_base (example_load (example_ramp 2 4)) example_state
     = llvm_visit_Load example_base (example_load (example_ramp 2 4)) example_state"
    unfolding example_load_def
    using wide_access_fusion [of example_helpers _ _ _ "UIntImm (UIntT 1 4) 1" "IntT 32 4"
        "\<lparr>modulus = 4, remainder = 0\<rparr>" example_base "''in''" None None example_state
        "example_ramp 2 4"]
      example_wide_access(2) b
    by simp
  have c3: "visit_Store example_helpers example_base
        (example_vector_store (example_ramp 1 4) (UIntImm (UIntT 1 4) 1)) example_state
     = codegen_Stmt example_base example_wide_store example_state"
    unfolding example_vector_store_def
    using wide_access_fusion [of example_helpers "Variable (IntT 32 1) ''x''" "IntImm (IntT 32 1) 1" 4
        "UIntImm (UIntT 1 4) 1" _ "\<lparr>modulus = 8, remainder = 4\<rparr>" example_base "''out''"
        _ None example_state _ "Variable (IntT 32 4) ''v''"]
      example_wide_access(3) example_atomic_store_ok(1) example_fused_forms(2) b
    by (simp add: example_ramp_def)
  have c4: "visit_Store example_helpers example_base
        (example_vector_store (example_ramp 1 8) (UIntImm (UIntT 1 4) 1)) example_state
     = llvm_visit_Store example_base
        (example_vector_store (example_ramp 1 8) (UIntImm (UIntT 1 4) 1)) example_state"
    unfolding example_vector_store_def
    using wide_access_fusion [of example_helpers _ _ _
        "UIntImm (UIntT 1 4) 1" _ "\<lparr>modulus = 8, remainder = 4\<rparr>" example_base "''out''"
        _ None example_state "example_ramp 1 8" "Variable (IntT 32 4) ''v''"]
      example_wide_access(4) example_atomic_store_ok(1) b
    by simp
  have c5: "visit_Store example_helpers example_base
        (example_vector_store (example_ramp 1 4) (Variable (UIntT 1 4) ''p'')) atomic_state
     = Inl UnsupportedAtomicWidth"
    unfolding example_vector_store_def
    using wide_access_fusion [of example_helpers _ _ _
        "Variable (UIntT 1 4) ''p''" _ "\<lparr>modulus = 8, remainder = 4\<rparr>" example_base "''out''"
        _ None atomic_state "example_ramp 1 4" "Variable (IntT 32 4) ''v''"]
      example_atomic_store_ok(2)
    by simp
  show ?thesis using c1 c2 c3 c4 c5 by simp
qed

text \<open>
  Two places where stores differ from the claim as stated.  Inside an atomic node, a
  four-lane store with a predicate that is not trivially true fails a precondition of the
  fusion, yet it is not lowered by the generic path: lowering fails.  And the fused store
  is not followed by a reinterpretation to the original type: what is lowered is a store
  whose value has been reinterpreted to the 128-bit type.
\<close>

theorem wide_store_not_as_claimed:
  "\<not> wide_access example_helpers (example_ramp 1 4) (Variable (UIntT 1 4) ''p'') 32
       \<lparr>modulus = 8, remainder = 4\<rparr>
   \<and> visit_Store example_helpers example_base
        (example_vector_store (example_ramp 1 4) (Variable (UIntT 1 4) ''p'')) atomic_state
       = Inl UnsupportedAtomicWidth
   \<and> visit_Store example_helpers example_base
        (example_vector_store (example_ramp 1 4) (Variable (UIntT 1 4) ''p'')) atomic_state
       \<noteq> llvm_visit_Store example_base
           (example_vector_store (example_ramp 1 4) (Variable (UIntT 1 4) ''p'')) atomic_state
   \<and> visit_Store example_helpers example_base
        (example_vector_store (example_ramp 1 4) (UIntImm (UIntT 1 4) 1)) example_state
       = codegen_Stmt example_base
           (Store ''out''
              (Call (UIntT 128 1) ''reinterpret'' [Variable (IntT 32 4) ''v''] PureIntrinsic)
              (Div (Variable (IntT 32 1) ''x'') (IntImm (IntT 32 1) 4)) None
              (UIntImm (UIntT 1 1) 1) \<lparr>modulus = 2, remainder = 1\<rparr>)
           example_state
   \<and> type_of (Call (UIntT 128 1) ''reinterpret'' [Variable (IntT 32 4) ''v''] PureIntrinsic)
       \<noteq> IntT 32 4"
  by (simp add: example_vector_store_def example_ramp_def example_helpers_def atomic_state_def
      example_state_def example_base_def generic_Stmt_def wide_access_def IntT_def UIntT_def is_uint_def
      reinterpret_def reinterpret_name_def div_const_def const_true_def)

text \<open>
  Claim C10.  A store that meets the fusion condition is rewritten inside an atomic node
  exactly as outside: with the flag set and with the flag clear, lowering continues with
  the same single store of the value reinterpreted to one 128-bit element.  Lowered again
  under the flag, that store passes the atomic check, is not rewritten a second time, and
  reaches the generic store visitor (when the helpers recognise \<open>const_true\<close> as one).
\<close>

theorem wide_store_inside_atomic:
  "wide_access H (Ramp base stride n) predicate (bits (type_of v)) alignment \<Longrightarrow>
   (let wide = Store name (reinterpret (UIntT 128 1) v) (simplify H (div_const H base 4)) param
                 (const_true H 1) (mr_div H alignment 4)
    in visit_Store H B (Store name v (Ramp base stride n) param predicate alignment)
         (s\<lparr>emit_atomic_stores := True\<rparr>)
         = codegen_Stmt B wide (s\<lparr>emit_atomic_stores := True\<rparr>)
       \<and> visit_Store H B (Store name v (Ramp base stride n) param predicate alignment)
           (s\<lparr>emit_atomic_stores := False\<rparr>)
         = codegen_Stmt B wide (s\<lparr>emit_atomic_stores := False\<rparr>)
       \<and> type_of (reinterpret (UIntT 128 1) v) = UIntT 128 1
       \<and> (is_const_one H (const_true H 1) \<longrightarrow>
            visit_Store H B wide (s\<lparr>emit_atomic_stores := True\<rparr>)
              = llvm_visit_Store B wide (s\<lparr>emit_atomic_stores := True\<rparr>)))"
proof -
  assume w: "wide_access H (Ramp base stride n) predicate (bits (type_of v)) alignment"
  let ?wide = "Store name (reinterpret (UIntT 128 1) v) (simplify H (div_const H base 4)) param
                 (const_true H 1) (mr_div H alignment 4)"
  have 1: "visit_Store H B (Store name v (Ramp base stride n) param predicate alignment) s'
         = codegen_Stmt B ?wide s'" for s'
    using visit_Store_wide [OF wide_access_atomic_ok [OF w] w] .
  have 2: "visit_Store H B ?wide (s\<lparr>emit_atomic_stores := True\<rparr>)
              = llvm_visit_Store B ?wide (s\<lparr>emit_atomic_stores := True\<rparr>)"
    if "is_const_one H (const_true H 1)"
  proof (rule visit_Store_generic)
    show "atomic_store_ok H (const_true H 1) (reinterpret (UIntT 128 1) v)
            (s\<lparr>emit_atomic_stores := True\<rparr>)"
      using that by (simp add: atomic_store_ok_def type_of_reinterpret UIntT_def)
    show "\<not> wide_access H (simplify H (div_const H base 4)) (const_true H 1)
              (bits (type_of (reinterpret (UIntT 128 1) v))) (mr_div H alignment 4)"
      by (rule not_wide_access_128)
  qed
  show ?thesis
    unfolding Let_def using 1 2 type_of_reinterpret by blast
qed

theorem wide_store_inside_atomic_witness:
  "visit_Store example_helpers example_base
      (example_vector_store (example_ramp 1 4) (UIntImm (UIntT 1 4) 1)) atomic_state
     = codegen_Stmt example_base example_wide_store atomic_state
   \<and> visit_Store example_helpers example_base
      (example_vector_store (example_ramp 1 4) (UIntImm (UIntT 1 4) 1)) example_state
     = codegen_Stmt example_base example_wide_store example_state
   \<and> visit_Store example_helpers example_base example_wide_store atomic_state
     = llvm_visit_Store example_base example_wide_store atomic_state"
proof -
  have b: "bits (type_of (Variable (IntT 32 4) ''v'')) = 32"
    by (simp add: IntT_def)
  have st: "example_state\<lparr>emit_atomic_stores := True\<rparr> = atomic_state"
    "example_state\<lparr>emit_atomic_stores := False\<rparr> = example_state"
    by (simp_all add: atomic_state_def example_state_def)
  have one: "is_const_one example_helpers (const_true example_helpers 1)"
    by (simp add: const_true_def example_helpers_def UIntT_def is_uint_def)
  show ?thesis
    unfolding example_vector_store_def
    using wide_store_inside_atomic [of example_helpers "Variable (IntT 32 1) ''x''"
        "IntImm (IntT 32 1) 1" 4 "UIntImm (UIntT 1 4) 1" "Variable (IntT 32 4) ''v''"
        "\<lparr>modulus = 8, remainder = 4\<rparr>" "''out''" None example_base example_state]
      example_wide_access(3) example_fused_forms(2) b st one
    by (simp add: example_ramp_def Let_def del: visit_Store.simps)
qed

section \<open>Dot-product reduction fusion\<close>

lemma narrow_mul_args_cases:
  "narrow_mul_args H u n mul_a mul_b =
    (case (try_8bit H u n mul_a, try_8bit H u n mul_b) of
       (Some a, Some b) \<Rightarrow> (Some a, Some b)
     | (Some a, None) \<Rightarrow> (try_16bit H u n mul_b, Some a)
     | (None, Some b) \<Rightarrow> (try_16bit H u n mul_a, Some b)
     | (None, None) \<Rightarrow> (None, None))"
proof (cases u)
  case True
  then show ?thesis
    by (cases "lossless_cast H (UIntT 8 n) mul_a"; cases "lossless_cast H (UIntT 8 n) mul_b";
        cases "lossless_cast H (UIntT 16 n) mul_a"; cases "lossless_cast H (UIntT 16 n) mul_b";
        simp add: narrow_mul_args_def try_8bit_def try_16bit_def)
next
  case False
  then show ?thesis
    by (cases "lossless_cast H (IntT 8 n) mul_a"; cases "lossless_cast H (IntT 8 n) mul_b";
        cases "lossless_cast H (UIntT 8 n) mul_a"; cases "lossless_cast H (UIntT 8 n) mul_b";
        cases "lossless_cast H (UIntT 16 n) mul_a"; cases "lossless_cast H (UIntT 16 n) mul_b";
        simp add: narrow_mul_args_def try_8bit_def try_16bit_def)
qed

lemma codegen_vector_reduce_generic:
  "dot_product_shape rop (Mul mul_a mul_b) out_lanes \<Longrightarrow>
   narrow_mul_args H (is_uint (with_lanes (type_of mul_a) out_lanes)) (lanes (type_of mul_a))
     mul_a mul_b = (a, b) \<Longrightarrow>
   a = None \<or> b = None \<Longrightarrow>
   codegen_vector_reduce H B (VectorReduce rop (Mul mul_a mul_b) out_lanes) init s
     = llvm_codegen_vector_reduce B (VectorReduce rop (Mul mul_a mul_b) out_lanes) init s"
  by (auto simp: dot_product_shape_def Let_def with_lanes_def split: option.splits)

lemma codegen_vector_reduce_fused:
  "dot_product_shape rop (Mul mul_a mul_b) out_lanes \<Longrightarrow>
   narrow_mul_args H (is_uint (with_lanes (type_of mul_a) out_lanes)) (lanes (type_of mul_a))
     mul_a mul_b = (Some a, Some b) \<Longrightarrow>
   codegen_vector_reduce H B (VectorReduce rop (Mul mul_a mul_b) out_lanes) init s
     = (case dot_product_equiv H (with_lanes (type_of mul_a) out_lanes) (lanes (type_of mul_a))
               (lanes (type_of mul_a) div out_lanes)
               (case init of Some i0 \<Rightarrow> i0
                | None \<Rightarrow> cast H (type_of mul_a) (IntImm (IntT 32 1) 0)) a b of
          Inl e \<Rightarrow> Inl e
        | Inr equiv_expr \<Rightarrow> codegen_Expr B equiv_expr s)"
  by (auto simp: dot_product_shape_def Let_def with_lanes_def split: option.splits)

lemma codegen_vector_reduce_other:
  "0 < out_lanes \<Longrightarrow> \<not> dot_product_shape rop (Mul mul_a mul_b) out_lanes \<Longrightarrow>
   codegen_vector_reduce H B (VectorReduce rop (Mul mul_a mul_b) out_lanes) init s
     = llvm_codegen_vector_reduce B (VectorReduce rop (Mul mul_a mul_b) out_lanes) init s"
  by (auto simp: dot_product_shape_def Let_def with_lanes_def)

text \<open>
  Claim C1, as the code has it.  Both operands of the multiply are first tried at 8 bits.
  When both narrow, they are kept in order.  When exactly one narrows, the 8-bit operand
  becomes the second operand \<open>b\<close> (the operands are swapped when it was the first one) and
  the other operand, now the first operand \<open>a\<close>, is tried at 16 bits, unsigned and then,
  for a signed target, signed.  When neither narrows nothing more is tried.  For a sum
  reduction of a multiply whose lane ratio is a multiple of 4 and whose element type is a
  32-bit signed or unsigned integer: if either operand is undefined after these steps the
  reduction goes to the generic path; if both are defined, lowering continues with the
  fused dot-product expression built from them.
\<close>

theorem dot_product_narrowing:
  "narrow_mul_args H u n mul_a mul_b =
    (case (try_8bit H u n mul_a, try_8bit H u n mul_b) of
       (Some a, Some b) \<Rightarrow> (Some a, Some b)
     | (Some a, None) \<Rightarrow> (try_16bit H u n mul_b, Some a)
     | (None, Some b) \<Rightarrow> (try_16bit H u n mul_a, Some b)
     | (None, None) \<Rightarrow> (None, None))
   \<and> (element_of t = IntT 32 1 \<longrightarrow> \<not> is_uint t)
   \<and> (element_of t = UIntT 32 1 \<longrightarrow> is_uint t)
   \<and> (let v = Mul mul_a mul_b;
           op = VectorReduce rop v out_lanes;
           input_lanes = lanes (type_of v);
           narrowed = narrow_mul_args H (is_uint (type_of op)) input_lanes mul_a mul_b
       in (dot_product_shape rop v out_lanes \<and> (fst narrowed = None \<or> snd narrowed = None) \<longrightarrow>
             codegen_vector_reduce H B op init s = llvm_codegen_vector_reduce B op init s)
          \<and> (dot_product_shape rop v out_lanes \<and> narrowed = (Some a, Some b) \<longrightarrow>
               codegen_vector_reduce H B op init s
                 = (case dot_product_equiv H (type_of op) input_lanes (input_lanes div out_lanes)
                           (case init of Some i0 \<Rightarrow> i0
                            | None \<Rightarrow> cast H (type_of v) (IntImm (IntT 32 1) 0)) a b of
                      Inl e \<Rightarrow> Inl e
                    | Inr equiv_expr \<Rightarrow> codegen_Expr B equiv_expr s)))"
proof -
  let ?n = "narrow_mul_args H (is_uint (with_lanes (type_of mul_a) out_lanes))
              (lanes (type_of mul_a)) mul_a mul_b"
  have g: "codegen_vector_reduce H B (VectorReduce rop (Mul mul_a mul_b) out_lanes) init s
      = llvm_codegen_vector_reduce B (VectorReduce rop (Mul mul_a mul_b) out_lanes) init s"
    if "dot_product_shape rop (Mul mul_a mul_b) out_lanes" "fst ?n = None \<or> snd ?n = None"
    using codegen_vector_reduce_generic [OF that(1), of H "fst ?n" "snd ?n" B init s] that(2)
    by simp
  have f: "codegen_vector_reduce H B (VectorReduce rop (Mul mul_a mul_b) out_lanes) init s
      = (case dot_product_equiv H (with_lanes (type_of mul_a) out_lanes) (lanes (type_of mul_a))
               (lanes (type_of mul_a) div out_lanes)
               (case init of Some i0 \<Rightarrow> i0
                | None \<Rightarrow> cast H (type_of mul_a) (IntImm (IntT 32 1) 0)) a b of
          Inl e \<Rightarrow> Inl e
        | Inr equiv_expr \<Rightarrow> codegen_Expr B equiv_expr s)"
    if "dot_product_shape rop (Mul mul_a mul_b) out_lanes" "?n = (Some a, Some b)"
    using that by (rule codegen_vector_reduce_fused)
  have sg: "element_of t = IntT 32 1 \<longrightarrow> \<not> is_uint t"
    by (cases t) (simp add: element_of_def with_lanes_def IntT_def is_uint_def)
  have us: "element_of t = UIntT 32 1 \<longrightarrow> is_uint t"
    by (cases t) (simp add: element_of_def with_lanes_def UIntT_def is_uint_def)
  show ?thesis
    using g f sg us narrow_mul_args_cases [of H u n mul_a mul_b]
    by (simp add: Let_def del: codegen_vector_reduce.simps cong: option.case_cong)
qed

lemma example_shape:
  "dot_product_shape VR_Add (example_mul ta tb) 1"
  by (simp add: dot_product_shape_def example_mul_def IntT_def element_of_def with_lanes_def)

lemma example_narrowing:
  "narrow_mul_args example_helpers False 4 (Cast (IntT 32 4) (Variable (IntT 8 4) ''a''))
     (Cast (IntT 32 4) (Variable (IntT 8 4) ''b''))
     = (Some (Variable (IntT 8 4) ''a''), Some (Variable (IntT 8 4) ''b''))"
  "narrow_mul_args example_helpers False 4 (Cast (IntT 32 4) (Variable (IntT 8 4) ''a''))
     (Cast (IntT 32 4) (Variable (UIntT 16 4) ''b''))
     = (Some (Variable (UIntT 16 4) ''b''), Some (Variable (IntT 8 4) ''a''))"
  "narrow_mul_args example_helpers False 4 (Cast (IntT 32 4) (Variable (UIntT 16 4) ''a''))
     (Cast (IntT 32 4) (Variable (IntT 8 4) ''b''))
     = (Some (Variable (UIntT 16 4) ''a''), Some (Variable (IntT 8 4) ''b''))"
  "narrow_mul_args example_helpers False 4 (Cast (IntT 32 4) (Variable (IntT 8 4) ''a''))
     (Cast (IntT 32 4) (Variable (IntT 32 4) ''b''))
     = (None, Some (Variable (IntT 8 4) ''a''))"
  by (simp_all add: narrow_mul_args_def example_helpers_def example_lossless_cast_def
      can_represent_def IntT_def UIntT_def is_int_def is_uint_def)

lemma example_dot_product_equiv:
  "dot_product_equiv example_helpers (IntT 32 1) 4 4
     (Cast (IntT 32 4) (IntImm (IntT 32 1) 0)) (Variable (IntT 8 4) ''a'') (Variable (IntT 8 4) ''b'')
   = Inr (Call (IntT 32 1) ''dp4a_s32_s32''
            [Call (IntT 32 1) ''reinterpret'' [Variable (IntT 8 4) ''a''] PureIntrinsic,
             Call (IntT 32 1) ''reinterpret'' [Variable (IntT 8 4) ''b''] PureIntrinsic,
             Shuffle [Cast (IntT 32 4) (IntImm (IntT 32 1) 0)] [0]]
            PureExtern)"
  by (simp add: dot_product_equiv_def dot_product_name_def as_32_bit_words_def
      dot_product_lane_def make_concat_def make_extract_element_def make_slice_def
      reinterpret_def reinterpret_name_def example_helpers_def
      IntT_def is_int_def is_scalar_def with_lanes_def element_of_def Let_def)

theorem dot_product_narrowing_witness:
  "codegen_vector_reduce example_helpers example_base
      (VectorReduce VR_Add (example_mul (IntT 8 4) (IntT 32 4)) 1) None example_state
     = llvm_codegen_vector_reduce example_base
         (VectorReduce VR_Add (example_mul (IntT 8 4) (IntT 32 4)) 1) None example_state
   \<and> codegen_vector_reduce example_helpers example_base
      (VectorReduce VR_Add (example_mul (IntT 8 4) (IntT 8 4)) 1) None example_state
     = codegen_Expr example_base
         (Call (IntT 32 1) ''dp4a_s32_s32''
            [Call (IntT 32 1) ''reinterpret'' [Variable (IntT 8 4) ''a''] PureIntrinsic,
             Call (IntT 32 1) ''reinterpret'' [Variable (IntT 8 4) ''b''] PureIntrinsic,
             Shuffle [Cast (IntT 32 4) (IntImm (IntT 32 1) 0)] [0]]
            PureExtern)
         example_state"
proof -
  have ty: "is_uint (type_of (VectorReduce VR_Add (example_mul ta tb) 1)) = False"
    "lanes (type_of (example_mul ta tb)) = 4"
    "type_of (VectorReduce VR_Add (example_mul ta tb) 1) = IntT 32 1"
    "type_of (example_mul ta tb) = IntT 32 4" for ta tb
    by (simp_all add: example_mul_def is_uint_def IntT_def with_lanes_def)
  have c: "cast example_helpers (IntT 32 4) (IntImm (IntT 32 1) 0)
      = Cast (IntT 32 4) (IntImm (IntT 32 1) 0)"
    by (simp add: example_helpers_def)
  note t1 = dot_product_narrowing [of example_helpers False 4
      "Cast (IntT 32 4) (Variable (IntT 8 4) ''a'')" "Cast (IntT 32 4) (Variable (IntT 32 4) ''b'')"
      "IntT 32 1" VR_Add 1 example_base None example_state]
  have c1: "codegen_vector_reduce example_helpers example_base
      (VectorReduce VR_Add (example_mul (IntT 8 4) (IntT 32 4)) 1) None example_state
     = llvm_codegen_vector_reduce example_base
         (VectorReduce VR_Add (example_mul (IntT 8 4) (IntT 32 4)) 1) None example_state"
    using t1 [THEN conjunct2, THEN conjunct2, THEN conjunct2] example_shape [of "IntT 8 4" "IntT 32 4"] example_narrowing(4)
      ty [of "IntT 8 4" "IntT 32 4"]
    by (simp add: Let_def example_mul_def del: codegen_vector_reduce.simps)
  note t2 = dot_product_narrowing [of example_helpers False 4
      "Cast (IntT 32 4) (Variable (IntT 8 4) ''a'')" "Cast (IntT 32 4) (Variable (IntT 8 4) ''b'')"
      "IntT 32 1" VR_Add 1 example_base None example_state "Variable (IntT 8 4) ''a''"
      "Variable (IntT 8 4) ''b''"]
  have c2: "codegen_vector_reduce example_helpers example_base
      (VectorReduce VR_Add (example_mul (IntT 8 4) (IntT 8 4)) 1) None example_state
     = codegen_Expr example_base
         (Call (IntT 32 1) ''dp4a_s32_s32''
            [Call (IntT 32 1) ''reinterpret'' [Variable (IntT 8 4) ''a''] PureIntrinsic,
             Call (IntT 32 1) ''reinterpret'' [Variable (IntT 8 4) ''b''] PureIntrinsic,
             Shuffle [Cast (IntT 32 4) (IntImm (IntT 32 1) 0)] [0]]
            PureExtern)
         example_state"
    using t2 [THEN conjunct2, THEN conjunct2, THEN conjunct2] example_shape [of "IntT 8 4" "IntT 8 4"] example_narrowing(1)
      ty [of "IntT 8 4" "IntT 8 4"] example_dot_product_equiv c
    by (simp add: Let_def example_mul_def del: codegen_vector_reduce.simps)
  show ?thesis using c1 c2 by simp
qed

text \<open>
  With a first operand that narrows to 8 bits and a second that narrows only to 16 bits,
  the operands are swapped so that the 8-bit operand is second, not first: the first operand is
  the 16-bit one, and the instruction chosen is \<^verbatim>\<open>dp2a_u32_s32\<close>.  With the 8-bit operand
  already second, nothing is swapped.
\<close>

theorem narrowed_operand_is_second:
  "lossless_cast example_helpers (IntT 8 4) (Cast (IntT 32 4) (Variable (IntT 8 4) ''a''))
     = Some (Variable (IntT 8 4) ''a'')
   \<and> lossless_cast example_helpers (IntT 8 4) (Cast (IntT 32 4) (Variable (UIntT 16 4) ''b'')) = None
   \<and> lossless_cast example_helpers (UIntT 8 4) (Cast (IntT 32 4) (Variable (UIntT 16 4) ''b'')) = None
   \<and> narrow_mul_args example_helpers False 4 (Cast (IntT 32 4) (Variable (IntT 8 4) ''a''))
        (Cast (IntT 32 4) (Variable (UIntT 16 4) ''b''))
       = (Some (Variable (UIntT 16 4) ''b''), Some (Variable (IntT 8 4) ''a''))
   \<and> fst (narrow_mul_args example_helpers False 4 (Cast (IntT 32 4) (Variable (IntT 8 4) ''a''))
        (Cast (IntT 32 4) (Variable (UIntT 16 4) ''b'')))
       \<noteq> Some (Variable (IntT 8 4) ''a'')
   \<and> dot_product_name (Variable (UIntT 16 4) ''b'') (Variable (IntT 8 4) ''a'') = ''dp2a_u32_s32''
   \<and> narrow_mul_args example_helpers False 4 (Cast (IntT 32 4) (Variable (UIntT 16 4) ''a''))
        (Cast (IntT 32 4) (Variable (IntT 8 4) ''b''))
       = (Some (Variable (UIntT 16 4) ''a''), Some (Variable (IntT 8 4) ''b''))"
  by (simp add: narrow_mul_args_def example_helpers_def example_lossless_cast_def
      can_represent_def dot_product_name_def IntT_def UIntT_def is_int_def is_uint_def)

section \<open>Kernel emission\<close>

text \<open>
  What \<^verbatim>\<open>verifyFunction\<close> and \<^verbatim>\<open>verifyModule\<close> return does not reach the result of
  \<^verbatim>\<open>add_kernel\<close>.
\<close>

lemma add_kernel_ignores_verifier:
  "add_kernel (H\<lparr>verifyFunction := vf, verifyModule := vm\<rparr>) B stmt name args s
     = add_kernel H B stmt name args s"
  by (cases "module s") (simp_all add: add_kernel_def Let_def cong: if_cong split: sum.splits)

text \<open>
  Claim C9, on the code.  With a verifier that reports the function and the module broken,
  \<^verbatim>\<open>add_kernel\<close> still returns normally: the kernel is in the module with its annotation,
  the entry block branches to the body, the body ends in a return, and the argument
  bindings are popped.  The result is the same for every verifier, so no verdict of the
  verifier makes it fail.
\<close>

theorem add_kernel_broken_function_accepted:
  "verifyFunction example_helpers m ''k'' \<and> verifyModule example_helpers m
   \<and> (case add_kernel example_helpers example_base example_kernel_body ''k'' example_args
             example_state of
         Inl e \<Rightarrow> False
       | Inr s' \<Rightarrow>
           map_option (map fname \<circ> module_functions) (module s') = Some [''llvm.nvvm.barrier0'', ''k'']
           \<and> map_option nvvm_annotations (module s') = Some [(''k'', ''kernel'', 1)]
           \<and> block_insts s' (BasicBlock ''k'' ''entry'') = [BranchInst (BasicBlock ''k'' ''body'')]
           \<and> block_insts s' (BasicBlock ''k'' ''body'')
               = [LoweredStmt ''codegen'' example_kernel_body, ReturnInst]
           \<and> symbol_table s' ''buf'' = [] \<and> symbol_table s' ''n'' = [])
   \<and> add_kernel (example_helpers\<lparr>verifyFunction := vf, verifyModule := vm\<rparr>) example_base
         example_kernel_body ''k'' example_args example_state
       = add_kernel example_helpers example_base example_kernel_body ''k'' example_args
           example_state"
  by (simp add: add_kernel_def Let_def example_helpers_def example_base_def generic_Stmt_def
      example_args_def example_state_def example_module_def SetInsertPoint_def CreateRetVoid_def
      CreateBr_def insert_inst_def add_nvvm_annotation_def sym_push_def sym_pop_def)

section \<open>Further properties of the lowering\<close>

text \<open>
  An assertion is lowered as the conditional \<^verbatim>\<open>if (!condition) halide_ptx_trap()\<close>, through
  the dispatching \<^verbatim>\<open>codegen\<close>; the message does not reach the result.
\<close>

theorem visit_AssertStmt_trap:
  "visit_AssertStmt H B (AssertStmt condition message) s
     = codegen_Stmt B
         (IfThenElse (Not_e condition)
            (Evaluate (Call (IntT 32 1) ''halide_ptx_trap'' [] Extern)) None) s
   \<and> visit_AssertStmt H B (AssertStmt condition message) s
     = visit_AssertStmt H B (AssertStmt condition message') s"
  by simp

text \<open>
  The fused instruction's name is read off a table of two by two by two entries: the width
  of the first operand (8 bits or not) and the signedness of each operand.
\<close>

theorem dot_product_name_table:
  "dot_product_name a b =
    (if bits (type_of a) = 8 then
       (if is_int (type_of a) then
          (if is_int (type_of b) then ''dp4a_s32_s32'' else ''dp4a_s32_u32'')
        else (if is_int (type_of b) then ''dp4a_u32_s32'' else ''dp4a_u32_u32''))
     else
       (if is_int (type_of a) then
          (if is_int (type_of b) then ''dp2a_s32_s32'' else ''dp2a_s32_u32'')
        else (if is_int (type_of b) then ''dp2a_u32_s32'' else ''dp2a_u32_u32'')))"
  by (simp add: dot_product_name_def)

text \<open>
  The feature string does not follow the generation list one to one: the flags for 7.0 and
  7.5 give the same string, as do those for 3.2 and 5.0, and the flags for 3.0 and 3.5 alone
  leave the default, so that 3.5 resolves to an older instruction set than 3.2.
\<close>

theorem mattrs_groups:
  "mattrs \<lparr>features = {CUDACapability70}\<rparr> = ''+ptx60''
   \<and> mattrs \<lparr>features = {CUDACapability75}\<rparr> = ''+ptx60''
   \<and> mattrs \<lparr>features = {CUDACapability61}\<rparr> = ''+ptx50''
   \<and> mattrs \<lparr>features = {CUDACapability50}\<rparr> = ''+ptx40''
   \<and> mattrs \<lparr>features = {CUDACapability32}\<rparr> = ''+ptx40''
   \<and> mattrs \<lparr>features = {CUDACapability35}\<rparr> = ''''
   \<and> mattrs \<lparr>features = {CUDACapability30}\<rparr> = ''''
   \<and> ptx_isa_version (mattrs \<lparr>features = {CUDACapability35}\<rparr>)
       < ptx_isa_version (mattrs \<lparr>features = {CUDACapability32}\<rparr>)"
  by (simp add: mattrs_def has_feature_def features_any_of_def ptx_isa_version_def)

end
